theory Spec2Isabelle
  imports Main "HOL-Library.Multiset"
begin

section \<open>Data model (types.go)\<close>

text \<open>
  Go strings are byte sequences; \<open>string\<close> is a list of 8-bit characters, so
  \<open>length\<close> is Go's \<open>len\<close> and \<open>take\<close> is Go's \<open>s[:n]\<close> for \<open>n\<close> in range.
  A Go \<open>error\<close> is represented by its message (\<open>err.Error()\<close>): the only thing
  the program ever does with an error is to wrap it with \<open>fmt.Errorf\<close>, log it,
  or search its message.  A return of type \<open>([]SearchResult, error)\<close> is a pair
  whose second component is \<open>None\<close> for \<open>nil\<close>.
\<close>

record SearchResult =
  Title :: string
  URL :: string
  Description :: string
  Source :: string
  Engine :: string

record SearchRequest =
  Query :: string
  Limit :: int
  Engines :: "string list"

type_synonym error = string

type_synonym search_return = "SearchResult list \<times> error option"

text \<open>The \<open>SearchEngine\<close> interface: a name and a search method.  The context
  argument only carries cancellation and is part of the engine's environment.\<close>

record SearchEngine =
  Name :: string
  Search :: "string \<Rightarrow> int \<Rightarrow> search_return"

section \<open>String helpers of the Go library\<close>

definition HasPrefix :: "string \<Rightarrow> string \<Rightarrow> bool" where
  "HasPrefix s p = (take (length p) s = p)"

primrec Contains :: "string \<Rightarrow> string \<Rightarrow> bool" where
  "Contains [] sub = (sub = [])"
| "Contains (c # cs) sub = (HasPrefix (c # cs) sub \<or> Contains cs sub)"

section \<open>Configuration (config.go)\<close>

record Config =
  DefaultEngine :: string
  AllowedEngines :: "string list"

definition ValidEngines :: "string list" where
  "ValidEngines = [''bing'', ''baidu'', ''duckduckgo'', ''google'', ''sogou'',
     ''browser_bing'', ''browser_baidu'', ''browser_google'']"

primrec contains :: "string list \<Rightarrow> string \<Rightarrow> bool" where
  "contains [] item = False"
| "contains (s # slice) item = (if s = item then True else contains slice item)"

definition isValidEngine :: "string \<Rightarrow> bool" where
  "isValidEngine engine = contains ValidEngines engine"

definition IsEngineAllowed :: "Config \<Rightarrow> string \<Rightarrow> bool" where
  "IsEngineAllowed c engine =
     (if length (AllowedEngines c) = 0 then isValidEngine engine
      else contains (AllowedEngines c) engine)"

definition GetDefaultSearchEngine :: "Config \<Rightarrow> string" where
  "GetDefaultSearchEngine c = DefaultEngine c"

section \<open>The coordinator (manager.go)\<close>

record Manager =
  engines :: "string \<rightharpoonup> SearchEngine"
  config :: Config

definition RegisterEngine :: "Manager \<Rightarrow> SearchEngine \<Rightarrow> Manager" where
  "RegisterEngine m engine = m\<lparr>engines := (engines m)(Name engine \<mapsto> engine)\<rparr>"

definition GetEngine :: "Manager \<Rightarrow> string \<Rightarrow> SearchEngine option" where
  "GetEngine m name = engines m name"

text \<open>
  \<open>Manager.Search\<close> has three phases.

  \<^enum> The \<open>for\<close> loop over the requested names decides, in request order, for
    which engines a goroutine is started (\<open>started\<close>): a name that
    \<open>IsEngineAllowed\<close> rejects or that \<open>GetEngine\<close> does not find hits
    \<open>continue\<close>.
  \<^enum> Every goroutine calls its engine and then, holding the mutex \<open>mu\<close>, either
    stores its error in \<open>lastErr\<close> or appends its results to \<open>allResults\<close>
    (\<open>goroutine\<close>).  The engines' calls are independent of one another; what the
    shared variables hold after \<open>wg.Wait()\<close> is determined by the order in which
    the goroutines take \<open>mu\<close>.  That order is not fixed by the program: it is
    the parameter \<open>sched\<close>, from which \<open>lock_order\<close> builds an arbitrary
    permutation of the started goroutines (the \<open>k\<close>-th number picks which of
    the goroutines still running finishes next).
  \<^enum> The final \<open>if\<close> turns the two shared variables into the return value.
\<close>

primrec started :: "Manager \<Rightarrow> string list \<Rightarrow> SearchEngine list" where
  "started m [] = []"
| "started m (engineName # rest) =
     (if \<not> IsEngineAllowed (config m) engineName then started m rest
      else (case GetEngine m engineName of
              None \<Rightarrow> started m rest
            | Some engine \<Rightarrow> engine # started m rest))"

function lock_order :: "nat list \<Rightarrow> 'a list \<Rightarrow> 'a list" where
  "lock_order sched [] = []"
| "lock_order [] (x # xs) = x # xs"
| "lock_order (k # sched) (x # xs) =
     (let i = k mod length (x # xs)
      in (x # xs) ! i # lock_order sched (take i (x # xs) @ drop (Suc i) (x # xs)))"
  by pat_completeness auto
termination
  by (relation "measure (\<lambda>(sched, xs). length xs)") auto

definition goroutine ::
  "string \<Rightarrow> int \<Rightarrow> SearchEngine \<Rightarrow> search_return \<Rightarrow> search_return" where
  "goroutine query limit eng shared =
     (case shared of (allResults, lastErr) \<Rightarrow>
        (case Search eng query limit of
           (results, Some err) \<Rightarrow> (allResults, Some err)
         | (results, None) \<Rightarrow> (allResults @ results, lastErr)))"

definition Manager_Search :: "Manager \<Rightarrow> nat list \<Rightarrow> SearchRequest \<Rightarrow> search_return" where
  "Manager_Search m sched req =
     (let engines = (if length (Engines req) = 0
                     then [GetDefaultSearchEngine (config m)] else Engines req);
          limit = (if Limit req \<le> 0 then 10 else Limit req);
          shared = fold (goroutine (Query req) limit)
                     (lock_order sched (started m engines)) ([], None)
      in (case shared of (allResults, lastErr) \<Rightarrow>
            if length allResults = 0 \<and> lastErr \<noteq> None
            then ([], Some (''all searches failed, last error: '' @ the lastErr))
            else (allResults, None)))"

section \<open>The outside world: HTTP, goquery and library calls\<close>

text \<open>
  Everything the engines obtain from outside the repository is a field of the record
  \<open>world\<close>; every theorem below holds for all worlds, that is, for arbitrary
  (also adversarial) replies of the network and for whatever the library functions
  compute.

  \<^item> \<open>http\<close> is the part of a page fetch up to the point where the body is a
    string (build the URL, \<open>NewRequestWithContext\<close>, \<open>client.Do\<close>, the status
    check where there is one, \<open>io.ReadAll\<close>): it gives either the error that the
    fetching function returns there, or the body.  Within one search every request
    is issued at most once, so a function of the request describes any server.
  \<^item> \<open>NewDocument\<close> is \<open>goquery.NewDocumentFromReader\<close> on the body; a parsed
    document is a tree of \<open>node\<close>s, each of which answers the queries the code asks.
  \<^item> \<open>TrimSpace\<close>, \<open>url_Host\<close> (\<open>url.Parse(u)\<close> then \<open>.Host\<close>), \<open>url_Query\<close>
    (\<open>url.Parse(u)\<close> then \<open>.Query().Get(key)\<close>), \<open>QueryUnescape\<close>,
    \<open>RawURLDecode\<close> (\<open>base64.RawURLEncoding.DecodeString\<close>) and
    \<open>FindAllStringSubmatch\<close> (for the one pattern of \<open>bing.go\<close>) are the Go library;
    \<open>None\<close> stands for a non-nil error.
\<close>

datatype request =
    BingPage string int
  | DuckDuckGoPage string
  | BaiduHome
  | BaiduPage string int
  | BaiduMobilePage string int
  | SogouPage string int
  | BrowserBingPage string int
  | BrowserGooglePage string int
  | BrowserBaiduPage string int

datatype node = Node
  (node_text : string)
  (node_attr : "string \<Rightarrow> string option")
  (node_find : "string \<Rightarrow> node list")
  (node_children : "node list")

type_synonym selection = "node list"

record world =
  http :: "request \<Rightarrow> error + string"
  NewDocument :: "string \<Rightarrow> error + node"
  TrimSpace :: "string \<Rightarrow> string"
  url_Host :: "string \<Rightarrow> string option"
  url_Query :: "string \<Rightarrow> string \<Rightarrow> string option"
  QueryUnescape :: "string \<Rightarrow> string option"
  RawURLDecode :: "string \<Rightarrow> string option"
  FindAllStringSubmatch :: "string \<Rightarrow> string list list"

text \<open>A goquery \<open>Selection\<close> is the list of its nodes, in document order.\<close>

definition Find :: "selection \<Rightarrow> string \<Rightarrow> selection" where
  "Find s selector = concat (map (\<lambda>n. node_find n selector) s)"

definition Children :: "selection \<Rightarrow> selection" where
  "Children s = concat (map node_children s)"

definition First :: "selection \<Rightarrow> selection" where
  "First s = take 1 s"

definition Length :: "selection \<Rightarrow> nat" where
  "Length s = length s"

definition Text :: "selection \<Rightarrow> string" where
  "Text s = concat (map node_text s)"

text \<open>\<open>Attr\<close> reads the attribute of the first node; \<open>None\<close> is \<open>exists = false\<close>,
  and \<open>Attr_or_empty\<close> is the form \<open>href, _ = el.Attr("href")\<close>.\<close>

definition Attr :: "selection \<Rightarrow> string \<Rightarrow> string option" where
  "Attr s name = (case s of [] \<Rightarrow> None | n # _ \<Rightarrow> node_attr n name)"

definition Attr_or_empty :: "selection \<Rightarrow> string \<Rightarrow> string" where
  "Attr_or_empty s name = (case Attr s name of None \<Rightarrow> [] | Some v \<Rightarrow> v)"

text \<open>\<open>Each\<close> calls its function once per node, on the selection of that node alone.\<close>

definition Each :: "selection \<Rightarrow> selection list" where
  "Each s = map (\<lambda>n. [n]) s"

text \<open>
  The loop that several extractors use for the description (and one for the source):
  \<^verbatim>\<open>
  for _, descSel := range descSelectors {
      descEl := s.Find(descSel)
      if descEl.Length() > 0 {
          description = strings.TrimSpace(descEl.First().Text())
          if description != "" { break }
      }
  }\<close>
\<close>

fun first_text :: "world \<Rightarrow> selection \<Rightarrow> string list \<Rightarrow> string \<Rightarrow> string" where
  "first_text W s [] description = description"
| "first_text W s (descSel # rest) description =
     (let descEl = Find s descSel
      in if Length descEl > 0
         then (let description' = TrimSpace W (Text (First descEl))
               in if description' \<noteq> [] then description'
                  else first_text W s rest description')
         else first_text W s rest description)"

text \<open>\<open>allResults[:limit]\<close> after \<open>len(allResults) > limit\<close>: a negative \<open>limit\<close>
  makes the slice expression panic (\<open>None\<close>).\<close>

definition slice_limit :: "int \<Rightarrow> 'a list \<Rightarrow> 'a list option" where
  "slice_limit limit allResults =
     (if int (length allResults) > limit
      then (if limit < 0 then None else Some (take (nat limit) allResults))
      else Some allResults)"

section \<open>Bing (bing.go)\<close>

definition Bing_parseItem :: "world \<Rightarrow> selection \<Rightarrow> SearchResult option" where
  "Bing_parseItem W s =
     (let titleEl = Find s ''h2''; linkEl = Find s ''h2 a''
      in if Length titleEl = 0 \<or> Length linkEl = 0 then None
         else (case Attr linkEl ''href'' of
                 None \<Rightarrow> None
               | Some href \<Rightarrow>
                   if \<not> HasPrefix href ''http'' then None
                   else (let description =
                               first_text W s [''.b_caption p'', ''p'', ''.b_algoSlug''] [];
                             citeEl = Find s ''cite'';
                             source = (if Length citeEl > 0
                                       then TrimSpace W (Text (First citeEl)) else [])
                         in Some \<lparr>Title = TrimSpace W (Text titleEl), URL = href,
                                  Description = description, Source = source,
                                  Engine = ''bing''\<rparr>)))"

fun Bing_selectors :: "world \<Rightarrow> selection \<Rightarrow> string list \<Rightarrow> SearchResult list \<Rightarrow> SearchResult list" where
  "Bing_selectors W doc [] results = results"
| "Bing_selectors W doc (selector # rest) results =
     (let results' = results @ List.map_filter (Bing_parseItem W) (Each (Find doc selector))
      in if length results' > 0 then results' else Bing_selectors W doc rest results')"

definition Bing_parseResults :: "world \<Rightarrow> selection \<Rightarrow> SearchResult list" where
  "Bing_parseResults W doc =
     Bing_selectors W doc [''li.b_algo'', ''#b_results > li.b_algo'', ''.b_algo''] []"

text \<open>The regular-expression fallback; \<open>seen\<close> is the set of keys mapped to \<open>true\<close>.\<close>

fun Bing_regex_loop ::
  "world \<Rightarrow> string list list \<Rightarrow> string set \<Rightarrow> SearchResult list \<Rightarrow> SearchResult list" where
  "Bing_regex_loop W [] seen results = results"
| "Bing_regex_loop W (match # rest) seen results =
     (if length match < 3 then Bing_regex_loop W rest seen results
      else (let href = match ! 1; title = TrimSpace W (match ! 2)
            in if Contains href ''bing.com'' \<or> Contains href ''microsoft.com''
                  \<or> title = [] \<or> href \<in> seen
               then Bing_regex_loop W rest seen results
               else if \<not> HasPrefix href ''http'' then Bing_regex_loop W rest seen results
               else (let results' = results @ [\<lparr>Title = title, URL = href, Description = [],
                                                Source = [], Engine = ''bing''\<rparr>]
                     in if length results' \<ge> 10 then results'
                        else Bing_regex_loop W rest (insert href seen) results')))"

definition Bing_extractResultsWithRegex :: "world \<Rightarrow> string \<Rightarrow> SearchResult list" where
  "Bing_extractResultsWithRegex W html = Bing_regex_loop W (FindAllStringSubmatch W html) {} []"

definition Bing_searchPage :: "world \<Rightarrow> string \<Rightarrow> int \<Rightarrow> search_return" where
  "Bing_searchPage W query page =
     (case http W (BingPage query page) of
        Inl err \<Rightarrow> ([], Some err)
      | Inr bodyStr \<Rightarrow>
          (case NewDocument W bodyStr of
             Inl err \<Rightarrow> ([], Some (''parse HTML failed: '' @ err))
           | Inr doc \<Rightarrow>
               (let results = Bing_parseResults W [doc];
                    results = (if length results = 0
                               then Bing_extractResultsWithRegex W bodyStr else results)
                in (results, None))))"

text \<open>
  The loop of \<open>Search\<close>.  It leaves either by \<open>return nil, err\<close> (\<open>Inl err\<close>) or
  to the statements after the loop, with the accumulated results (\<open>Inr\<close>).  The
  second component lists the calls of \<open>searchPage\<close> that were made.
\<close>

function Bing_loop ::
  "world \<Rightarrow> string \<Rightarrow> int \<Rightarrow> SearchResult list \<Rightarrow> int
     \<Rightarrow> (error + SearchResult list) \<times> request list" where
  "Bing_loop W query limit allResults pn =
     (if int (length allResults) < limit
      then (case Bing_searchPage W query pn of
              (results, Some err) \<Rightarrow>
                if length allResults > 0 then (Inr allResults, [BingPage query pn])
                else (Inl err, [BingPage query pn])
            | (results, None) \<Rightarrow>
                if length results = 0 then (Inr allResults, [BingPage query pn])
                else if pn + 1 > 5 then (Inr (allResults @ results), [BingPage query pn])
                else (case Bing_loop W query limit (allResults @ results) (pn + 1) of
                        (exit, fetched) \<Rightarrow> (exit, BingPage query pn # fetched)))
      else (Inr allResults, []))"
  by pat_completeness auto
termination
  by (relation "measure (\<lambda>(W, query, limit, allResults, pn). nat (6 - pn))") auto

definition Bing_Search ::
  "world \<Rightarrow> string \<Rightarrow> int \<Rightarrow> search_return option \<times> request list" where
  "Bing_Search W query limit =
     (case Bing_loop W query limit [] 0 of
        (Inl err, fetched) \<Rightarrow> (Some ([], Some err), fetched)
      | (Inr allResults, fetched) \<Rightarrow>
          (map_option (\<lambda>rs. (rs, None)) (slice_limit limit allResults), fetched))"

section \<open>Baidu (baidu.go)\<close>

text \<open>The non-ASCII literals of the source, as their UTF-8 bytes.\<close>

definition zh_anquan_yanzheng :: string where
  "zh_anquan_yanzheng = [CHR 0xE5, CHR 0xAE, CHR 0x89, CHR 0xE5, CHR 0x85, CHR 0xA8,
                         CHR 0xE9, CHR 0xAA, CHR 0x8C, CHR 0xE8, CHR 0xAF, CHR 0x81]"

definition zh_baidu_anquan_yanzheng :: string where
  "zh_baidu_anquan_yanzheng =
     [CHR 0xE7, CHR 0x99, CHR 0xBE, CHR 0xE5, CHR 0xBA, CHR 0xA6] @ zh_anquan_yanzheng"

definition zh_guanggao :: string where
  "zh_guanggao = [CHR 0xE5, CHR 0xB9, CHR 0xBF, CHR 0xE5, CHR 0x91, CHR 0x8A]"

definition zh_tuiguang :: string where
  "zh_tuiguang = [CHR 0xE6, CHR 0x8E, CHR 0xA8, CHR 0xE5, CHR 0xB9, CHR 0xBF]"

definition zh_xiang_zai_ci_tuiguang :: string where
  "zh_xiang_zai_ci_tuiguang =
     [CHR 0xE6, CHR 0x83, CHR 0xB3, CHR 0xE5, CHR 0x9C, CHR 0xA8, CHR 0xE6, CHR 0xAD, CHR 0xA4]
       @ zh_tuiguang"

definition zh_yanzhengma :: string where
  "zh_yanzhengma = [CHR 0xE9, CHR 0xAA, CHR 0x8C, CHR 0xE8, CHR 0xAF, CHR 0x81,
                    CHR 0xE7, CHR 0xA0, CHR 0x81]"

text \<open>\<open>for _, x := range xs { if strings.Contains(s, x) { return true } }\<close>\<close>

primrec contains_any :: "string \<Rightarrow> string list \<Rightarrow> bool" where
  "contains_any s [] = False"
| "contains_any s (x # xs) = (if Contains s x then True else contains_any s xs)"

definition Baidu_isInternalLink :: "string \<Rightarrow> string \<Rightarrow> bool" where
  "Baidu_isInternalLink href title =
     (let internalDomains = [''baidu.com/s?'', ''baidu.com/baidu.php'', ''baidu.com/link?'',
                             ''tieba.baidu.com'', ''zhidao.baidu.com'', ''baike.baidu.com''];
          adKeywords = [zh_guanggao, zh_tuiguang, zh_xiang_zai_ci_tuiguang]
      in if contains_any href (take 2 internalDomains) then True
         else if contains_any title adKeywords then True
         else False)"

text \<open>
  The description of a desktop result: the \<open>aria-label\<close> first, then \<open>.cos-row\<close>,
  then \<open>.c-abstract\<close>, each tried only while the description is still empty.
\<close>

definition Baidu_description :: "world \<Rightarrow> selection \<Rightarrow> string" where
  "Baidu_description W s =
     (let descEl = First (Find s ''.c-font-normal.c-color-text'');
          description =
            (if Length descEl > 0
             then (case Attr descEl ''aria-label'' of
                     None \<Rightarrow> []
                   | Some ariaLabel \<Rightarrow>
                       if ariaLabel \<noteq> [] then TrimSpace W ariaLabel else [])
             else []);
          description =
            (if description = []
             then (let cosRow = First (Find s ''.cos-row'')
                   in if Length cosRow > 0 then TrimSpace W (Text cosRow) else description)
             else description);
          description =
            (if description = []
             then (let abstractEl = First (Find s ''.c-abstract'')
                   in if Length abstractEl > 0
                      then TrimSpace W (Text abstractEl) else description)
             else description)
      in description)"

text \<open>
  \<^verbatim>\<open>if len(description) > 500 { description = description[:500] + "..." }\<close>
  (the same statement in \<open>baidu.go\<close> and in \<open>sogou.go\<close>; \<open>len\<close> counts bytes).
\<close>

definition cap_description :: "string \<Rightarrow> string" where
  "cap_description description =
     (if length description > 500 then take 500 description @ ''...'' else description)"

definition Baidu_parseResultItem :: "world \<Rightarrow> selection \<Rightarrow> SearchResult option" where
  "Baidu_parseResultItem W s =
     (let titleEl = Find s ''h3''
      in if Length titleEl = 0 then None
         else (let title = TrimSpace W (Text titleEl)
           in if title = [] then None
              else (let linkEl = First (Find titleEl ''a'');
                        linkEl = (if Length linkEl = 0 then First (Find s ''a'') else linkEl);
                        href = (if Length linkEl > 0 then Attr_or_empty linkEl ''href'' else [])
                in if href = [] \<or> \<not> HasPrefix href ''http'' then None
                   else if Baidu_isInternalLink href title then None
                   else (let description = Baidu_description W s;
                             sourceEl = First (Find s ''.cosc-source'');
                             source = (if Length sourceEl > 0
                                       then TrimSpace W (Text sourceEl) else []);
                             source = (if source = []
                                       then (case url_Host W href of
                                               Some host \<Rightarrow> host | None \<Rightarrow> source)
                                       else source);
                             description = cap_description description
                         in Some \<lparr>Title = title, URL = href, Description = description,
                                  Source = source, Engine = ''baidu''\<rparr>))))"

definition Baidu_parseResults :: "world \<Rightarrow> selection \<Rightarrow> SearchResult list" where
  "Baidu_parseResults W doc =
     List.map_filter (Baidu_parseResultItem W) (Each (Children (Find doc ''#content_left'')))"

definition Baidu_parseMobileItem :: "world \<Rightarrow> selection \<Rightarrow> SearchResult option" where
  "Baidu_parseMobileItem W s =
     (let titleEl = First (Find s ''.c-title, .c-title-text, h3'');
          title = (if Length titleEl > 0 then TrimSpace W (Text titleEl) else [])
      in if title = [] then None
         else (let linkEl = First (Find s ''a'');
                   href = (if Length linkEl > 0 then Attr_or_empty linkEl ''href'' else []);
                   href = (if href \<noteq> [] \<and> \<not> HasPrefix href ''http''
                           then (if HasPrefix href ''/'' then ''https://m.baidu.com'' @ href
                                 else href)
                           else href)
           in if href = [] \<or> \<not> HasPrefix href ''http'' then None
              else if Baidu_isInternalLink href title then None
              else (let descEl = First (Find s ''.c-abstract, .c-span-last, .c-line-clamp2'');
                        description = (if Length descEl > 0
                                       then TrimSpace W (Text descEl) else []);
                        sourceEl = First (Find s ''.c-showurl, .c-color-source'');
                        source = (if Length sourceEl > 0
                                  then TrimSpace W (Text sourceEl) else []);
                        source = (if source = []
                                  then (case url_Host W href of
                                          Some host \<Rightarrow> host | None \<Rightarrow> source)
                                  else source)
                    in Some \<lparr>Title = title, URL = href, Description = description,
                             Source = source, Engine = ''baidu''\<rparr>)))"

definition Baidu_parseMobileResults :: "world \<Rightarrow> selection \<Rightarrow> SearchResult list" where
  "Baidu_parseMobileResults W doc =
     List.map_filter (Baidu_parseMobileItem W)
       (Each (Find doc ''.c-result, .result, [data-log]''))"

definition Baidu_searchPageMobile :: "world \<Rightarrow> string \<Rightarrow> int \<Rightarrow> search_return" where
  "Baidu_searchPageMobile W query pn =
     (case http W (BaiduMobilePage query pn) of
        Inl err \<Rightarrow> ([], Some err)
      | Inr bodyStr \<Rightarrow>
          if Contains bodyStr ''wappass.baidu.com'' \<or> Contains bodyStr ''captcha''
             \<or> Contains bodyStr zh_anquan_yanzheng
          then ([], Some ''mobile captcha required'')
          else (case NewDocument W bodyStr of
                  Inl err \<Rightarrow> ([], Some (''parse mobile HTML failed: '' @ err))
                | Inr doc \<Rightarrow> (Baidu_parseMobileResults W [doc], None)))"

text \<open>\<open>searchPage\<close> returns its result and the HTTP requests it issued.\<close>

definition Baidu_searchPage :: "world \<Rightarrow> string \<Rightarrow> int \<Rightarrow> search_return \<times> request list" where
  "Baidu_searchPage W query pn =
     (case http W (BaiduPage query pn) of
        Inl err \<Rightarrow> (([], Some err), [BaiduPage query pn])
      | Inr bodyStr \<Rightarrow>
          if Contains bodyStr ''wappass.baidu.com'' \<or> Contains bodyStr ''captcha''
             \<or> Contains bodyStr zh_baidu_anquan_yanzheng
             \<or> Contains bodyStr zh_anquan_yanzheng
          then (case Baidu_searchPageMobile W query pn of
                  (mobileResults, Some err) \<Rightarrow>
                    (([], Some (''baidu rate limited/captcha required: '' @ err)),
                     [BaiduPage query pn, BaiduMobilePage query pn])
                | (mobileResults, None) \<Rightarrow>
                    if length mobileResults = 0
                    then (([], Some ''baidu rate limited: captcha required, please try again later or use a proxy''),
                          [BaiduPage query pn, BaiduMobilePage query pn])
                    else ((mobileResults, None),
                          [BaiduPage query pn, BaiduMobilePage query pn]))
          else (case NewDocument W bodyStr of
                  Inl err \<Rightarrow> (([], Some (''parse HTML failed: '' @ err)), [BaiduPage query pn])
                | Inr doc \<Rightarrow> ((Baidu_parseResults W [doc], None), [BaiduPage query pn])))"

function Baidu_loop ::
  "world \<Rightarrow> string \<Rightarrow> int \<Rightarrow> SearchResult list \<Rightarrow> int
     \<Rightarrow> (error + SearchResult list) \<times> request list" where
  "Baidu_loop W query limit allResults pn =
     (if int (length allResults) < limit
      then (case Baidu_searchPage W query pn of
              ((results, Some err), sent) \<Rightarrow>
                if Contains err ''captcha'' \<or> Contains err ''rate limited''
                then (if length allResults > 0 then (Inr allResults, sent)
                      else (Inl (''baidu rate limited: '' @ err), sent))
                else if length allResults > 0 then (Inr allResults, sent)
                else (Inl err, sent)
            | ((results, None), sent) \<Rightarrow>
                if length results = 0 then (Inr allResults, sent)
                else if pn + 10 > 40 then (Inr (allResults @ results), sent)
                else (case Baidu_loop W query limit (allResults @ results) (pn + 10) of
                        (exit, sent') \<Rightarrow> (exit, sent @ sent')))
      else (Inr allResults, []))"
  by pat_completeness auto
termination
  by (relation "measure (\<lambda>(W, query, limit, allResults, pn). nat (41 - pn))") auto

text \<open>\<open>Search\<close> first requests the home page (\<open>warmup\<close>), whose error is only logged.\<close>

definition Baidu_Search ::
  "world \<Rightarrow> string \<Rightarrow> int \<Rightarrow> search_return option \<times> request list" where
  "Baidu_Search W query limit =
     (case Baidu_loop W query limit [] 0 of
        (Inl err, sent) \<Rightarrow> (Some ([], Some err), BaiduHome # sent)
      | (Inr allResults, sent) \<Rightarrow>
          (map_option (\<lambda>rs. (rs, None)) (slice_limit limit allResults), BaiduHome # sent))"

section \<open>Sogou (sogou.go)\<close>

text \<open>\<open>strings.ReplaceAll(s, old, "")\<close> for a non-empty \<open>old\<close>: scanning from the
  left, every occurrence found is dropped (\<open>skip\<close> counts the bytes of the
  occurrence still to be dropped) and the scan goes on behind it.\<close>

primrec delete_all :: "string \<Rightarrow> nat \<Rightarrow> string \<Rightarrow> string" where
  "delete_all old skip [] = []"
| "delete_all old skip (c # cs) =
     (if skip > 0 then delete_all old (skip - 1) cs
      else if HasPrefix (c # cs) old then delete_all old (length old - 1) cs
      else c # delete_all old 0 cs)"

definition TrimPrefix :: "string \<Rightarrow> string \<Rightarrow> string" where
  "TrimPrefix s p = (if HasPrefix s p then drop (length p) s else s)"

definition Sogou_isInternalLink :: "string \<Rightarrow> string \<Rightarrow> bool" where
  "Sogou_isInternalLink href title =
     (let internalPatterns = [''sogou.com/web/searchList'', ''sogou.com/link?'',
                              ''sogou.com/tx?'', ''sogou.com/v?'', ''antispider''];
          adKeywords = [zh_guanggao, zh_tuiguang]
      in if contains_any href internalPatterns then True
         else if contains_any title adKeywords then True
         else False)"

definition Sogou_extractRealURL :: "world \<Rightarrow> string \<Rightarrow> string" where
  "Sogou_extractRealURL W href =
     (case url_Query W href ''url'' of
        None \<Rightarrow> href
      | Some realURL \<Rightarrow>
          if realURL \<noteq> []
          then (case QueryUnescape W realURL of Some decoded \<Rightarrow> decoded | None \<Rightarrow> realURL)
          else href)"

fun Sogou_title_loop ::
  "world \<Rightarrow> selection \<Rightarrow> string list \<Rightarrow> string \<times> string \<Rightarrow> string \<times> string" where
  "Sogou_title_loop W s [] (title, href) = (title, href)"
| "Sogou_title_loop W s (selector # rest) (title, href) =
     (let titleEl = First (Find s selector)
      in if Length titleEl > 0
         then (let title' = TrimSpace W (Text titleEl); href' = Attr_or_empty titleEl ''href''
               in if title' \<noteq> [] \<and> href' \<noteq> [] then (title', href')
                  else Sogou_title_loop W s rest (title', href'))
         else Sogou_title_loop W s rest (title, href))"

fun Sogou_desc_loop :: "world \<Rightarrow> selection \<Rightarrow> string list \<Rightarrow> string \<Rightarrow> string" where
  "Sogou_desc_loop W s [] description = description"
| "Sogou_desc_loop W s (selector # rest) description =
     (let descEl = First (Find s selector)
      in if Length descEl > 0
         then (let description' = TrimSpace W (Text descEl)
               in if description' \<noteq> [] then description'
                  else Sogou_desc_loop W s rest description')
         else Sogou_desc_loop W s rest description)"

definition Sogou_parseResultItem :: "world \<Rightarrow> selection \<Rightarrow> SearchResult option" where
  "Sogou_parseResultItem W s =
     (case Sogou_title_loop W s
             [''.vr-tit a'', ''.title__titleText_287f'', ''.video-desc__videoTitle_812e'',
              ''h3 a'', ''.major-title a''] ([], []) of
        (title, href) \<Rightarrow>
     (case (if title = [] \<or> href = []
            then (let linkEl = First (Find s ''a.resultLink'')
                  in if Length linkEl > 0
                     then (TrimSpace W (Text linkEl), Attr_or_empty linkEl ''href'')
                     else (title, href))
            else (title, href)) of
        (title, href) \<Rightarrow>
          if title = [] \<or> href = [] then None
          else (let href = (if \<not> HasPrefix href ''http''
                            then (if HasPrefix href ''/'' then ''https://wap.sogou.com'' @ href
                                  else if HasPrefix href ''./''
                                  then ''https://wap.sogou.com/web/'' @ TrimPrefix href ''./''
                                  else href)
                            else href)
            in if Sogou_isInternalLink href title then None
               else (let description =
                           Sogou_desc_loop W s
                             [''.title-summary'', ''.clamp2'', ''.result-summary-exp'',
                              ''.video-desc__descContent_812e''] [];
                         sourceEl = First (Find s ''.citeurl span'');
                         source = (if Length sourceEl > 0
                                   then TrimSpace W (Text sourceEl) else []);
                         source = (if source = []
                                   then (let realURL = Sogou_extractRealURL W href
                                         in if realURL \<noteq> []
                                            then (case url_Host W realURL of
                                                    Some host \<Rightarrow> host | None \<Rightarrow> source)
                                            else source)
                                   else source);
                         title = delete_all ''<em>'' 0 title;
                         title = delete_all ''</em>'' 0 title;
                         description = delete_all ''<em>'' 0 description;
                         description = delete_all ''</em>'' 0 description;
                         description = cap_description description
                     in Some \<lparr>Title = title, URL = href, Description = description,
                              Source = source, Engine = ''sogou''\<rparr>))))"

definition Sogou_parseResults :: "world \<Rightarrow> selection \<Rightarrow> SearchResult list" where
  "Sogou_parseResults W doc =
     List.map_filter (Sogou_parseResultItem W) (Each (Find doc ''.vrResult''))"

definition Sogou_searchPage :: "world \<Rightarrow> string \<Rightarrow> int \<Rightarrow> search_return" where
  "Sogou_searchPage W query page =
     (case http W (SogouPage query page) of
        Inl err \<Rightarrow> ([], Some err)
      | Inr bodyStr \<Rightarrow>
          if Contains bodyStr ''antispider'' \<or> Contains bodyStr zh_yanzhengma
          then ([], Some ''sogou rate limited: anti-spider triggered'')
          else (case NewDocument W bodyStr of
                  Inl err \<Rightarrow> ([], Some (''parse HTML failed: '' @ err))
                | Inr doc \<Rightarrow> (Sogou_parseResults W [doc], None)))"

function Sogou_loop ::
  "world \<Rightarrow> string \<Rightarrow> int \<Rightarrow> SearchResult list \<Rightarrow> int
     \<Rightarrow> (error + SearchResult list) \<times> request list" where
  "Sogou_loop W query limit allResults page =
     (if int (length allResults) < limit
      then (case Sogou_searchPage W query page of
              (results, Some err) \<Rightarrow>
                if length allResults > 0 then (Inr allResults, [SogouPage query page])
                else (Inl err, [SogouPage query page])
            | (results, None) \<Rightarrow>
                if length results = 0 then (Inr allResults, [SogouPage query page])
                else if page + 1 > 5 then (Inr (allResults @ results), [SogouPage query page])
                else (case Sogou_loop W query limit (allResults @ results) (page + 1) of
                        (exit, fetched) \<Rightarrow> (exit, SogouPage query page # fetched)))
      else (Inr allResults, []))"
  by pat_completeness auto
termination
  by (relation "measure (\<lambda>(W, query, limit, allResults, page). nat (6 - page))") auto

definition Sogou_Search ::
  "world \<Rightarrow> string \<Rightarrow> int \<Rightarrow> search_return option \<times> request list" where
  "Sogou_Search W query limit =
     (case Sogou_loop W query limit [] 1 of
        (Inl err, fetched) \<Rightarrow> (Some ([], Some err), fetched)
      | (Inr allResults, fetched) \<Rightarrow>
          (map_option (\<lambda>rs. (rs, None)) (slice_limit limit allResults), fetched))"

section \<open>DuckDuckGo (duckduckgo.go)\<close>

text \<open>The callback of \<open>Each\<close> in \<open>parseResults\<close>: one item, given the results so far.\<close>

definition DuckDuckGo_parseItem ::
  "world \<Rightarrow> int \<Rightarrow> SearchResult list \<Rightarrow> selection \<Rightarrow> SearchResult list" where
  "DuckDuckGo_parseItem W limit results s =
     (if int (length results) \<ge> limit then results
      else (let titleEl = Find s ''.result__title''; linkEl = Find s ''.result__a''
            in if Length titleEl = 0 \<or> Length linkEl = 0 then results
               else (case Attr linkEl ''href'' of
                       None \<Rightarrow> results
                     | Some href \<Rightarrow>
                         (let href = (if HasPrefix href ''//duckduckgo.com/l/''
                                      then (case url_Query W (''https:'' @ href) ''uddg'' of
                                              Some uddg \<Rightarrow> uddg | None \<Rightarrow> href)
                                      else href)
                          in if href = [] \<or> \<not> HasPrefix href ''http'' then results
                             else (let descEl = Find s ''.result__snippet'';
                                       description = (if Length descEl > 0
                                                      then TrimSpace W (Text descEl) else []);
                                       sourceEl = Find s ''.result__url'';
                                       source = (if Length sourceEl > 0
                                                 then TrimSpace W (Text sourceEl) else [])
                                   in results @
                                        [\<lparr>Title = TrimSpace W (Text titleEl), URL = href,
                                          Description = description, Source = source,
                                          Engine = ''duckduckgo''\<rparr>])))))"

definition DuckDuckGo_parseResults :: "world \<Rightarrow> selection \<Rightarrow> int \<Rightarrow> SearchResult list" where
  "DuckDuckGo_parseResults W doc limit =
     fold (\<lambda>s results. DuckDuckGo_parseItem W limit results s) (Each (Find doc ''.result'')) []"

definition DuckDuckGo_Search :: "world \<Rightarrow> string \<Rightarrow> int \<Rightarrow> search_return" where
  "DuckDuckGo_Search W query limit =
     (case http W (DuckDuckGoPage query) of
        Inl err \<Rightarrow> ([], Some err)
      | Inr body \<Rightarrow>
          (case NewDocument W body of
             Inl err \<Rightarrow> ([], Some (''parse HTML failed: '' @ err))
           | Inr doc \<Rightarrow> (DuckDuckGo_parseResults W [doc] limit, None)))"

section \<open>The shared browser (browser.go)\<close>

text \<open>
  A call either returns, or blocks forever, or panics.  \<open>sync.Mutex\<close> is not
  reentrant: \<open>Lock\<close> on a mutex that is held waits until the holder calls
  \<open>Unlock\<close>.  In this file every \<open>Unlock\<close> is deferred by the function that
  locked, so a call that finds \<open>mu\<close> held by its own caller never returns.
\<close>

datatype 'a outcome = Returns 'a | Blocks | Panics

datatype ctx =
    Background
  | ExecAllocator string bool string
  | NewContext ctx
  | WithTimeout ctx nat

record BrowserManager =
  allocCtx :: "ctx option"
  browserCtx :: "ctx option"
  mu :: bool
  initialized :: bool
  proxyURL :: string
  headless :: bool

text \<open>
  What the machine outside the program answers: \<open>findChromePath\<close> is the result of
  the function of that name (\<open>[]\<close> when no executable exists), \<open>start_browser\<close> the
  result of the warm-up \<open>chromedp.Run(bm.browserCtx)\<close>, and \<open>navigate\<close> the result
  of the \<open>chromedp.Run(tabCtx, ...)\<close> of a page fetch: its error, or the page's HTML.
\<close>

record host =
  findChromePath :: string
  start_browser :: "error option"
  navigate :: "ctx \<Rightarrow> request \<Rightarrow> error + string"

text \<open>The events by which an initialization sequence is observed from outside.\<close>

datatype browser_event = LookForChrome | LaunchBrowser

definition GetBrowserManager :: BrowserManager where
  "GetBrowserManager =
     \<lparr>allocCtx = None, browserCtx = None, mu = False, initialized = False,
      proxyURL = [], headless = True\<rparr>"

definition Lock :: "BrowserManager \<Rightarrow> BrowserManager option" where
  "Lock bm = (if mu bm then None else Some (bm\<lparr>mu := True\<rparr>))"

definition Unlock :: "BrowserManager \<Rightarrow> BrowserManager" where
  "Unlock bm = bm\<lparr>mu := False\<rparr>"

definition Initialize ::
  "host \<Rightarrow> BrowserManager \<Rightarrow> string \<Rightarrow> bool
     \<Rightarrow> (error option \<times> BrowserManager \<times> browser_event list) outcome" where
  "Initialize H bm0 proxy hl =
     (case Lock bm0 of
        None \<Rightarrow> Blocks
      | Some bm \<Rightarrow>
          if initialized bm then Returns (None, Unlock bm, [])
          else (let bm = bm\<lparr>proxyURL := proxy, headless := hl\<rparr>;
                    chromePath = findChromePath H
                in if chromePath = []
                   then Returns (Some ''Chrome/Chromium not found. Please install Chrome browser'',
                                 Unlock bm, [LookForChrome])
                   else (let alloc = ExecAllocator chromePath hl proxy;
                             bm = bm\<lparr>allocCtx := Some alloc,
                                      browserCtx := Some (NewContext alloc)\<rparr>
                         in (case start_browser H of
                               Some err \<Rightarrow>
                                 Returns (Some (''failed to start browser: '' @ err), Unlock bm,
                                          [LookForChrome, LaunchBrowser])
                             | None \<Rightarrow>
                                 Returns (None, Unlock (bm\<lparr>initialized := True\<rparr>),
                                          [LookForChrome, LaunchBrowser])))))"

text \<open>
  \<open>NewTabContext\<close> returns the context; its cancel function is determined by the
  context (the no-op for \<open>Background\<close>, \<open>timeoutCancel(); tabCancel()\<close> otherwise).
  \<open>chromedp.NewContext\<close> on a nil parent panics.
\<close>

definition NewTabContext ::
  "host \<Rightarrow> BrowserManager \<Rightarrow> nat \<Rightarrow> (ctx \<times> BrowserManager \<times> browser_event list) outcome" where
  "NewTabContext H bm0 timeout =
     (case Lock bm0 of
        None \<Rightarrow> Blocks
      | Some bm \<Rightarrow>
          (let tab = (\<lambda>bm events.
                 case browserCtx bm of
                   None \<Rightarrow> Panics
                 | Some parent \<Rightarrow>
                     Returns (WithTimeout (NewContext parent) timeout, Unlock bm, events))
           in if \<not> initialized bm
              then (case Initialize H bm [] True of
                      Blocks \<Rightarrow> Blocks
                    | Panics \<Rightarrow> Panics
                    | Returns (Some err, bm, events) \<Rightarrow> Returns (Background, Unlock bm, events)
                    | Returns (None, bm, events) \<Rightarrow> tab bm events)
              else tab bm []))"

definition Close :: "BrowserManager \<Rightarrow> BrowserManager outcome" where
  "Close bm0 =
     (case Lock bm0 of
        None \<Rightarrow> Blocks
      | Some bm \<Rightarrow> Returns (Unlock (bm\<lparr>initialized := False\<rparr>)))"

text \<open>
  Concurrent callers of \<open>Initialize\<close>: the whole body runs with \<open>mu\<close> held, so the
  calls take effect one after the other, in the order in which they get the mutex.
  Each caller comes with its arguments and with what the machine answers while it
  holds the mutex.  The result lists, per caller, what it was returned and the
  events of its call.
\<close>

fun Initialize_callers ::
  "BrowserManager \<Rightarrow> (host \<times> string \<times> bool) list
     \<Rightarrow> ((error option \<times> browser_event list) list \<times> BrowserManager) outcome" where
  "Initialize_callers bm [] = Returns ([], bm)"
| "Initialize_callers bm ((H, proxy, hl) # callers) =
     (case Initialize H bm proxy hl of
        Blocks \<Rightarrow> Blocks
      | Panics \<Rightarrow> Panics
      | Returns (err, bm', events) \<Rightarrow>
          (case Initialize_callers bm' callers of
             Blocks \<Rightarrow> Blocks
           | Panics \<Rightarrow> Panics
           | Returns (rest, bm'') \<Rightarrow> Returns ((err, events) # rest, bm'')))"

section \<open>The browser engines (browser_bing.go, browser_google.go, browser_baidu.go)\<close>

text \<open>
  The three engines differ in the page they open and in \<open>parseHTML\<close>; \<open>searchPage\<close>
  and \<open>Search\<close> are the same text in the three files, so each is modelled once,
  with the page request and the parser as parameters.  Every engine has a timeout of
  60 seconds.
\<close>

definition BrowserBing_extractRealURL :: "world \<Rightarrow> string \<Rightarrow> string" where
  "BrowserBing_extractRealURL W href =
     (if \<not> Contains href ''bing.com/ck/a'' then href
      else (case url_Query W href ''u'' of
              None \<Rightarrow> href
            | Some u \<Rightarrow>
                if u \<noteq> []
                then (let u = (if HasPrefix u ''a1'' then drop 2 u else u)
                      in (case RawURLDecode W u of
                            Some decoded \<Rightarrow> if length decoded > 0 then decoded else href
                          | None \<Rightarrow> href))
                else href))"

definition BrowserBing_parseItem :: "world \<Rightarrow> selection \<Rightarrow> SearchResult option" where
  "BrowserBing_parseItem W s =
     (let titleEl = Find s ''h2 a''
      in if Length titleEl = 0 then None
         else (let title = TrimSpace W (Text titleEl)
               in (case Attr titleEl ''href'' of
                     None \<Rightarrow> None
                   | Some href \<Rightarrow>
                       (let realURL = BrowserBing_extractRealURL W href
                        in if realURL = [] \<or> \<not> HasPrefix realURL ''http'' then None
                           else if Contains realURL ''bing.com'' \<or> Contains realURL ''microsoft.com''
                           then None
                           else (let descEl = Find s ''.b_caption p'';
                                     description = (if Length descEl > 0
                                                    then TrimSpace W (Text (First descEl)) else []);
                                     citeEl = Find s ''cite'';
                                     source = (if Length citeEl > 0
                                               then TrimSpace W (Text (First citeEl)) else [])
                                 in Some \<lparr>Title = title, URL = realURL,
                                          Description = description, Source = source,
                                          Engine = ''browser_bing''\<rparr>)))))"

definition BrowserBing_parseHTML :: "world \<Rightarrow> string \<Rightarrow> search_return" where
  "BrowserBing_parseHTML W html =
     (case NewDocument W html of
        Inl err \<Rightarrow> ([], Some (''parse HTML failed: '' @ err))
      | Inr doc \<Rightarrow>
          (List.map_filter (BrowserBing_parseItem W) (Each (Find [doc] ''li.b_algo'')), None))"

definition BrowserGoogle_parseItem :: "world \<Rightarrow> string \<Rightarrow> selection \<Rightarrow> SearchResult option" where
  "BrowserGoogle_parseItem W selector s =
     (if Length (Find s ''div.g'') > 0 \<and> selector \<noteq> ''div.g'' then None
      else (let linkEl = First (Find s ''a[href]'')
            in if Length linkEl = 0 then None
               else (case Attr linkEl ''href'' of
                       None \<Rightarrow> None
                     | Some href \<Rightarrow>
                         if \<not> HasPrefix href ''http'' \<or> Contains href ''google.com''
                            \<or> Contains href ''webcache.googleusercontent.com''
                         then None
                         else (let titleEl = Find s ''h3'';
                                   title = (if Length titleEl > 0
                                            then TrimSpace W (Text (First titleEl)) else [])
                               in if title = [] then None
                                  else (let description =
                                              first_text W s
                                                [''div[data-sncf]'', ''div.VwiC3b'', ''span.aCOpRe'',
                                                 ''div.IsZvec''] [];
                                            citeEl = Find s ''cite'';
                                            source = (if Length citeEl > 0
                                                      then TrimSpace W (Text (First citeEl))
                                                      else [])
                                        in Some \<lparr>Title = title, URL = href,
                                                 Description = description, Source = source,
                                                 Engine = ''browser_google''\<rparr>)))))"

fun BrowserGoogle_selectors ::
  "world \<Rightarrow> selection \<Rightarrow> string list \<Rightarrow> SearchResult list \<Rightarrow> SearchResult list" where
  "BrowserGoogle_selectors W doc [] results = results"
| "BrowserGoogle_selectors W doc (selector # rest) results =
     (let results' = results @ List.map_filter (BrowserGoogle_parseItem W selector)
                                 (Each (Find doc selector))
      in if length results' > 0 then results'
         else BrowserGoogle_selectors W doc rest results')"

text \<open>The de-duplication by URL at the end of the Google \<open>parseHTML\<close>.\<close>

fun unique_by_URL :: "SearchResult list \<Rightarrow> string set \<Rightarrow> SearchResult list" where
  "unique_by_URL [] seen = []"
| "unique_by_URL (r # results) seen =
     (if URL r \<notin> seen then r # unique_by_URL results (insert (URL r) seen)
      else unique_by_URL results seen)"

definition BrowserGoogle_parseHTML :: "world \<Rightarrow> string \<Rightarrow> search_return" where
  "BrowserGoogle_parseHTML W html =
     (case NewDocument W html of
        Inl err \<Rightarrow> ([], Some (''parse HTML failed: '' @ err))
      | Inr doc \<Rightarrow>
          (unique_by_URL
             (BrowserGoogle_selectors W [doc] [''div.g'', ''div[data-ved]'', ''div.Gx5Zad''] [])
             {}, None))"

definition BrowserBaidu_parseItem :: "world \<Rightarrow> selection \<Rightarrow> SearchResult option" where
  "BrowserBaidu_parseItem W s =
     (let titleEl = Find s ''h3 a'';
          titleEl = (if Length titleEl = 0 then First (Find s ''a[href]'') else titleEl)
      in if Length titleEl = 0 then None
         else (let title = TrimSpace W (Text titleEl)
               in if title = [] then None
                  else (case Attr titleEl ''href'' of
                          None \<Rightarrow> None
                        | Some href \<Rightarrow>
                            if \<not> HasPrefix href ''http'' then None
                            else (let description =
                                        first_text W s
                                          [''div.c-abstract'', ''span.c-abstract'',
                                           ''div.c-span-last'', ''div.content-right_8Zs40''] [];
                                      source =
                                        first_text W s
                                          [''span.c-showurl'', ''a.c-showurl'',
                                           ''span.source_1Vdff''] []
                                  in if Contains title zh_guanggao then None
                                     else Some \<lparr>Title = title, URL = href,
                                               Description = description, Source = source,
                                               Engine = ''browser_baidu''\<rparr>))))"

definition BrowserBaidu_parseHTML :: "world \<Rightarrow> string \<Rightarrow> search_return" where
  "BrowserBaidu_parseHTML W html =
     (case NewDocument W html of
        Inl err \<Rightarrow> ([], Some (''parse HTML failed: '' @ err))
      | Inr doc \<Rightarrow>
          (List.map_filter (BrowserBaidu_parseItem W)
             (Each (Find [doc] ''div.result, div.result-op, div.c-container'')), None))"

text \<open>An engine: the request of a page and its \<open>parseHTML\<close>.\<close>

record browser_engine =
  page_request :: "string \<Rightarrow> int \<Rightarrow> request"
  parseHTML :: "string \<Rightarrow> search_return"
  engine_proxyURL :: string
  engine_headless :: bool

definition BrowserBingEngine :: "world \<Rightarrow> string \<Rightarrow> bool \<Rightarrow> browser_engine" where
  "BrowserBingEngine W proxy hl =
     \<lparr>page_request = BrowserBingPage, parseHTML = BrowserBing_parseHTML W,
      engine_proxyURL = proxy, engine_headless = hl\<rparr>"

definition BrowserGoogleEngine :: "world \<Rightarrow> string \<Rightarrow> bool \<Rightarrow> browser_engine" where
  "BrowserGoogleEngine W proxy hl =
     \<lparr>page_request = BrowserGooglePage, parseHTML = BrowserGoogle_parseHTML W,
      engine_proxyURL = proxy, engine_headless = hl\<rparr>"

definition BrowserBaiduEngine :: "world \<Rightarrow> string \<Rightarrow> bool \<Rightarrow> browser_engine" where
  "BrowserBaiduEngine W proxy hl =
     \<lparr>page_request = BrowserBaiduPage, parseHTML = BrowserBaidu_parseHTML W,
      engine_proxyURL = proxy, engine_headless = hl\<rparr>"

definition Browser_searchPage ::
  "host \<Rightarrow> browser_engine \<Rightarrow> BrowserManager \<Rightarrow> string \<Rightarrow> int
     \<Rightarrow> (search_return \<times> BrowserManager) outcome" where
  "Browser_searchPage H e bm query page =
     (case NewTabContext H bm 60 of
        Blocks \<Rightarrow> Blocks
      | Panics \<Rightarrow> Panics
      | Returns (tabCtx, bm', events) \<Rightarrow>
          (case navigate H tabCtx (page_request e query page) of
             Inl err \<Rightarrow> Returns (([], Some (''browser navigation failed: '' @ err)), bm')
           | Inr html \<Rightarrow>
               (case parseHTML e html of
                  (results, Some err) \<Rightarrow> Returns (([], Some err), bm')
                | (results, None) \<Rightarrow> Returns ((results, None), bm'))))"

function Browser_loop ::
  "host \<Rightarrow> browser_engine \<Rightarrow> string \<Rightarrow> int \<Rightarrow> BrowserManager \<Rightarrow> SearchResult list \<Rightarrow> int
     \<Rightarrow> ((error + SearchResult list) \<times> request list) outcome" where
  "Browser_loop H e query limit bm allResults page =
     (if int (length allResults) < limit \<and> page < 3
      then (case Browser_searchPage H e bm query page of
              Blocks \<Rightarrow> Blocks
            | Panics \<Rightarrow> Panics
            | Returns ((results, Some err), bm') \<Rightarrow>
                if length allResults > 0 then Returns (Inr allResults, [page_request e query page])
                else Returns (Inl err, [page_request e query page])
            | Returns ((results, None), bm') \<Rightarrow>
                if length results = 0 then Returns (Inr allResults, [page_request e query page])
                else (case Browser_loop H e query limit bm' (allResults @ results) (page + 1) of
                        Blocks \<Rightarrow> Blocks
                      | Panics \<Rightarrow> Panics
                      | Returns (exit, fetched) \<Rightarrow>
                          Returns (exit, page_request e query page # fetched)))
      else Returns (Inr allResults, []))"
  by pat_completeness auto
termination
  by (relation "measure (\<lambda>(H, e, query, limit, bm, allResults, page). nat (3 - page))") auto

definition Browser_Search ::
  "host \<Rightarrow> browser_engine \<Rightarrow> BrowserManager \<Rightarrow> string \<Rightarrow> int
     \<Rightarrow> (search_return \<times> request list) outcome" where
  "Browser_Search H e bm query limit =
     (case Initialize H bm (engine_proxyURL e) (engine_headless e) of
        Blocks \<Rightarrow> Blocks
      | Panics \<Rightarrow> Panics
      | Returns (Some err, bm', events) \<Rightarrow>
          Returns (([], Some (''failed to initialize browser: '' @ err)), [])
      | Returns (None, bm', events) \<Rightarrow>
          (case Browser_loop H e query limit bm' [] 0 of
             Blocks \<Rightarrow> Blocks
           | Panics \<Rightarrow> Panics
           | Returns (Inl err, fetched) \<Rightarrow> Returns (([], Some err), fetched)
           | Returns (Inr allResults, fetched) \<Rightarrow>
               (case slice_limit limit allResults of
                  None \<Rightarrow> Panics
                | Some rs \<Rightarrow> Returns ((rs, None), fetched))))"

section \<open>Notions used to state the properties\<close>

text \<open>
  Of the outcomes of the engines that were queried, in the order in which their
  goroutines finished: the combined result sequence (the results of the calls that
  returned no error) and the errors of the calls that failed.
\<close>

definition combined :: "search_return list \<Rightarrow> SearchResult list" where
  "combined outs = concat (map fst (filter (\<lambda>r. snd r = None) outs))"

definition failures :: "search_return list \<Rightarrow> error list" where
  "failures outs = List.map_filter snd outs"

text \<open>The spec's words "uses an http/https scheme", for a URL given as a string.\<close>

definition http_or_https :: "string \<Rightarrow> bool" where
  "http_or_https url = (HasPrefix url ''http://'' \<or> HasPrefix url ''https://'')"

text \<open>The calls of \<open>searchPage\<close> among the requests of a Baidu search are its
  requests of desktop pages.\<close>

fun desktop_pages :: "request list \<Rightarrow> nat" where
  "desktop_pages [] = 0"
| "desktop_pages (BaiduPage q pn # rest) = Suc (desktop_pages rest)"
| "desktop_pages (r # rest) = desktop_pages rest"

section \<open>Scenarios\<close>

text \<open>Engines with a fixed answer, and coordinators built from them.\<close>

definition hit :: "string \<Rightarrow> string \<Rightarrow> SearchResult" where
  "hit engine url =
     \<lparr>Title = ''Go'', URL = url, Description = [], Source = [], Engine = engine\<rparr>"

definition capped_engine :: "string \<Rightarrow> SearchResult list \<Rightarrow> SearchEngine" where
  "capped_engine name found =
     \<lparr>Name = name, Search = (\<lambda>query limit. (take (nat limit) found, None))\<rparr>"

definition failing_engine :: "string \<Rightarrow> error \<Rightarrow> SearchEngine" where
  "failing_engine name err = \<lparr>Name = name, Search = (\<lambda>query limit. ([], Some err))\<rparr>"

definition open_config :: Config where
  "open_config = \<lparr>DefaultEngine = ''duckduckgo'', AllowedEngines = []\<rparr>"

definition bing_only_config :: Config where
  "bing_only_config = \<lparr>DefaultEngine = ''bing'', AllowedEngines = [''bing'']\<rparr>"

definition two_engines :: "Config \<Rightarrow> Manager" where
  "two_engines cfg =
     RegisterEngine
       (RegisterEngine \<lparr>engines = Map.empty, config = cfg\<rparr>
          (capped_engine ''bing'' [hit ''bing'' ''https://go.dev/'', hit ''bing'' ''https://go.dev/doc/'']))
       (capped_engine ''baidu'' [hit ''baidu'' ''https://golang.google.cn/'',
                                 hit ''baidu'' ''https://go.dev/''])"

definition blocked_engines :: Manager where
  "blocked_engines =
     RegisterEngine
       (RegisterEngine \<lparr>engines = Map.empty, config = open_config\<rparr>
          (capped_engine ''bing'' [hit ''bing'' ''https://go.dev/'', hit ''bing'' ''https://go.dev/doc/'']))
       (failing_engine ''baidu'' ''baidu rate limited: mobile captcha required'')"

definition all_blocked :: Manager where
  "all_blocked =
     RegisterEngine
       (RegisterEngine \<lparr>engines = Map.empty, config = open_config\<rparr>
          (failing_engine ''bing'' ''request failed: timeout''))
       (failing_engine ''baidu'' ''baidu rate limited: mobile captcha required'')"

text \<open>A result page of Bing with two items, served for every request.\<close>

definition text_node :: "string \<Rightarrow> node" where
  "text_node t = Node t (\<lambda>a. None) (\<lambda>sel. []) []"

definition link_node :: "string \<Rightarrow> string \<Rightarrow> node" where
  "link_node t href = Node t (\<lambda>a. if a = ''href'' then Some href else None) (\<lambda>sel. []) []"

definition bing_item :: "string \<Rightarrow> string \<Rightarrow> node" where
  "bing_item href desc =
     Node [] (\<lambda>a. None)
       (\<lambda>sel. if sel = ''h2'' then [text_node ''Go'']
              else if sel = ''h2 a'' then [link_node ''Go'' href]
              else if sel = ''.b_caption p'' then [text_node desc]
              else []) []"

definition page_of :: "string \<Rightarrow> node list \<Rightarrow> node" where
  "page_of sel items = Node [] (\<lambda>a. None) (\<lambda>s. if s = sel then items else []) []"

definition fixed_world :: "node \<Rightarrow> world" where
  "fixed_world doc =
     \<lparr>http = (\<lambda>r. Inr ''<html>''), NewDocument = (\<lambda>body. Inr doc), TrimSpace = (\<lambda>s. s),
      url_Host = (\<lambda>u. None), url_Query = (\<lambda>u key. None), QueryUnescape = (\<lambda>s. None),
      RawURLDecode = (\<lambda>s. None), FindAllStringSubmatch = (\<lambda>s. [])\<rparr>"

definition two_hits :: node where
  "two_hits = page_of ''li.b_algo''
      [bing_item ''https://go.dev/'' ''The Go programming language'',
       bing_item ''https://go.dev/doc/'' ''Documentation'']"

definition bing_two :: world where
  "bing_two = fixed_world two_hits"

text \<open>A Bing item with a description of 600 bytes, and one whose link is
  \<open>httpfoo://x\<close>.\<close>

definition bing_long :: node where
  "bing_long = page_of ''li.b_algo'' [bing_item ''https://go.dev/'' (replicate 600 (CHR ''a''))]"

definition bing_odd :: node where
  "bing_odd = page_of ''li.b_algo'' [bing_item ''httpfoo://x'' ''The Go programming language'']"

text \<open>
  Baidu: a desktop page with two results; a server that answers the first page, then
  shows the challenge on the desktop page and on the mobile page; and a desktop page
  whose result has an abstract of 600 bytes.
\<close>

definition baidu_entry :: "string \<Rightarrow> string \<Rightarrow> node" where
  "baidu_entry href abstract =
     Node [] (\<lambda>a. None)
       (\<lambda>sel. if sel = ''h3''
              then [Node ''Go'' (\<lambda>a. None)
                      (\<lambda>sel. if sel = ''a'' then [link_node ''Go'' href] else []) []]
              else if sel = ''.c-abstract'' then [text_node abstract]
              else []) []"

definition baidu_page :: node where
  "baidu_page =
     Node [] (\<lambda>a. None)
       (\<lambda>sel. if sel = ''#content_left''
              then [Node [] (\<lambda>a. None) (\<lambda>sel. [])
                      [baidu_entry ''https://go.dev/'' ''The Go programming language'',
                       baidu_entry ''https://go.dev/doc/'' ''Documentation'']]
              else []) []"

definition baidu_blocked_later :: world where
  "baidu_blocked_later =
     (fixed_world baidu_page)
       \<lparr>http := (\<lambda>r. case r of
                    BaiduPage query pn \<Rightarrow> if pn = 0 then Inr ''<html>'' else Inr ''captcha''
                  | BaiduMobilePage query pn \<Rightarrow> Inr ''wappass.baidu.com''
                  | _ \<Rightarrow> Inl ''request failed'')\<rparr>"

definition baidu_long :: node where
  "baidu_long =
     Node [] (\<lambda>a. None)
       (\<lambda>sel. if sel = ''#content_left''
              then [Node [] (\<lambda>a. None) (\<lambda>sel. [])
                      [baidu_entry ''https://go.dev/'' (replicate 600 (CHR ''a''))]]
              else []) []"

text \<open>Sogou: a result whose link is neither absolute nor a relative path.\<close>

definition sogou_script_link :: node where
  "sogou_script_link =
     page_of ''.vrResult''
       [Node [] (\<lambda>a. None)
          (\<lambda>sel. if sel = ''.vr-tit a'' then [link_node ''Go'' ''javascript:void(0)''] else []) []]"

text \<open>Machines without Chrome, with a Chrome that fails to start, and with a working one.\<close>

definition no_chrome :: host where
  "no_chrome = \<lparr>findChromePath = [], start_browser = None,
                 navigate = (\<lambda>c r. Inl ''invalid context'')\<rparr>"

definition launch_fails :: host where
  "launch_fails = \<lparr>findChromePath = ''/usr/bin/chromium'',
                    start_browser = Some ''chrome failed to start'',
                    navigate = (\<lambda>c r. Inl ''invalid context'')\<rparr>"

definition chrome_works :: host where
  "chrome_works = \<lparr>findChromePath = ''/usr/bin/chromium'', start_browser = None,
                    navigate = (\<lambda>c r. Inr ''<html>'')\<rparr>"

section \<open>Properties of the coordinator\<close>

lemma lock_order_mset: "mset (lock_order sched xs) = mset xs"
proof (induction sched xs rule: lock_order.induct)
  case (3 k sched x xs)
  let ?l = "x # xs"
  let ?i = "k mod length ?l"
  have i: "?i < length ?l" by simp
  have "mset ?l = mset (take ?i ?l @ ?l ! ?i # drop (Suc ?i) ?l)"
    using id_take_nth_drop [OF i] by simp
  then show ?case using 3 by (simp add: Let_def)
qed simp_all

lemma lock_order_Nil_iff: "lock_order sched xs = [] \<longleftrightarrow> xs = []"
  using lock_order_mset [of sched xs] by (metis mset_zero_iff)

lemma fold_goroutine:
  "fold (goroutine q l) engs (acc, le) =
     (acc @ combined (map (\<lambda>eng. Search eng q l) engs),
      if failures (map (\<lambda>eng. Search eng q l) engs) = [] then le
      else Some (last (failures (map (\<lambda>eng. Search eng q l) engs))))"
proof (induction engs arbitrary: acc le)
  case Nil
  show ?case by (simp add: combined_def failures_def)
next
  case (Cons e engs)
  obtain rs err where out: "Search e q l = (rs, err)" by (cases "Search e q l")
  show ?case
  proof (cases err)
    case None
    have "goroutine q l e (acc, le) = (acc @ rs, le)"
      by (simp add: goroutine_def out None)
    then show ?thesis
      using Cons [of "acc @ rs" le]
      by (simp add: out None combined_def failures_def)
  next
    case (Some a)
    have "goroutine q l e (acc, le) = (acc, Some a)"
      by (simp add: goroutine_def out Some)
    then show ?thesis
      using Cons [of acc "Some a"]
      by (simp add: out Some combined_def failures_def)
  qed
qed

lemma started_skips:
  "\<not> IsEngineAllowed (config m) n \<or> GetEngine m n = None \<Longrightarrow>
   started m (ns @ n # ns') = started m (ns @ ns')"
  by (induction ns) (auto split: option.splits)

lemmas scenario_defs = two_engines_def blocked_engines_def all_blocked_def open_config_def
  bing_only_config_def capped_engine_def failing_engine_def RegisterEngine_def GetEngine_def
  IsEngineAllowed_def isValidEngine_def ValidEngines_def GetDefaultSearchEngine_def

text \<open>
  C1.  \<open>Manager.Search\<close> reduces the outcomes of the queried engines as follows,
  whatever the order in which the goroutines finish: if the combined result sequence
  is not empty it is returned with no error, however many engines failed; if it is
  empty and at least one engine failed, the call fails with the error retained last,
  wrapped; if no engine was queried, the call returns the empty sequence and no error.
\<close>

theorem Search_reduces_outcomes:
  "let es = (if length (Engines req) = 0 then [GetDefaultSearchEngine (config m)] else Engines req);
       l = (if Limit req \<le> 0 then 10 else Limit req);
       outs = map (\<lambda>eng. Search eng (Query req) l) (lock_order sched (started m es))
   in (combined outs \<noteq> [] \<longrightarrow> Manager_Search m sched req = (combined outs, None))
    \<and> (combined outs = [] \<and> failures outs \<noteq> [] \<longrightarrow>
         Manager_Search m sched req =
           ([], Some (''all searches failed, last error: '' @ last (failures outs))))
    \<and> (started m es = [] \<longrightarrow> Manager_Search m sched req = ([], None))"
  by (simp add: Manager_Search_def Let_def fold_goroutine combined_def failures_def)

theorem Search_reduces_outcomes_witness:
  "Manager_Search blocked_engines [1] \<lparr>Query = ''golang'', Limit = 3, Engines = [''bing'', ''baidu'']\<rparr>
     = ([hit ''bing'' ''https://go.dev/'', hit ''bing'' ''https://go.dev/doc/''], None)
   \<and> Manager_Search all_blocked [] \<lparr>Query = ''golang'', Limit = 3, Engines = [''bing'', ''baidu'']\<rparr>
     = ([], Some ''all searches failed, last error: baidu rate limited: mobile captcha required'')
   \<and> Manager_Search all_blocked [] \<lparr>Query = ''golang'', Limit = 3, Engines = [''google'']\<rparr>
     = ([], None)"
  using Search_reduces_outcomes [of "\<lparr>Query = ''golang'', Limit = 3, Engines = [''bing'', ''baidu'']\<rparr>" blocked_engines "[1]"]
    Search_reduces_outcomes [of "\<lparr>Query = ''golang'', Limit = 3, Engines = [''bing'', ''baidu'']\<rparr>" all_blocked "[]"]
    Search_reduces_outcomes [of "\<lparr>Query = ''golang'', Limit = 3, Engines = [''google'']\<rparr>" all_blocked "[]"]
  by (simp add: scenario_defs combined_def failures_def Let_def)

text \<open>
  C7.  A requested engine that is missing from a non-empty allow-list, or that is not
  registered, is skipped silently: the request returns what it returns without that
  name (so the other engines are queried all the same, and the name contributes
  neither results nor an error), and a request that names only such an engine returns
  the empty sequence and no error.
\<close>

theorem excluded_engine_contributes_nothing:
  assumes "(AllowedEngines (config m) \<noteq> [] \<and> \<not> contains (AllowedEngines (config m)) n)
           \<or> GetEngine m n = None"
  shows "(ns @ ns' \<noteq> [] \<longrightarrow>
            Manager_Search m sched (req\<lparr>Engines := ns @ n # ns'\<rparr>)
              = Manager_Search m sched (req\<lparr>Engines := ns @ ns'\<rparr>))
       \<and> Manager_Search m sched (req\<lparr>Engines := [n]\<rparr>) = ([], None)"
proof -
  from assms have ex: "\<not> IsEngineAllowed (config m) n \<or> GetEngine m n = None"
    by (auto simp: IsEngineAllowed_def)
  have one: "started m [n] = []"
    using started_skips [OF ex, of "[]" "[]"] by simp
  show ?thesis
    using started_skips [OF ex, of ns ns'] one
    by (simp add: Manager_Search_def)
qed

theorem excluded_engine_contributes_nothing_witness:
  "Manager_Search (two_engines bing_only_config) [1]
       \<lparr>Query = ''golang'', Limit = 3, Engines = [''baidu'', ''bing'']\<rparr>
     = Manager_Search (two_engines bing_only_config) [1]
         \<lparr>Query = ''golang'', Limit = 3, Engines = [''bing'']\<rparr>
   \<and> Manager_Search (two_engines bing_only_config) [1]
       \<lparr>Query = ''golang'', Limit = 3, Engines = [''baidu'']\<rparr> = ([], None)"
  using excluded_engine_contributes_nothing
    [of "two_engines bing_only_config" "''baidu''" "[]" "[''bing'']" "[1]"
        "\<lparr>Query = ''golang'', Limit = 3, Engines = []\<rparr>"]
  by (simp add: scenario_defs)

text \<open>
  C3.  The claim is that the combined sequence has at most \<open>limit\<close> results.  The
  coordinator does not cut the combined sequence: with two registered engines that
  each keep to the limit, a request with limit 2 that names both returns four results.
\<close>

theorem Search_exceeds_limit:
  "Manager_Search (two_engines open_config) []
       \<lparr>Query = ''golang'', Limit = 2, Engines = [''bing'', ''baidu'']\<rparr>
     = ([hit ''bing'' ''https://go.dev/'', hit ''bing'' ''https://go.dev/doc/'',
         hit ''baidu'' ''https://golang.google.cn/'', hit ''baidu'' ''https://go.dev/''], None)"
  by (simp add: Manager_Search_def goroutine_def scenario_defs)


section \<open>Properties of the engines: the limit\<close>

declare Bing_loop.simps [simp del] Baidu_loop.simps [simp del] Sogou_loop.simps [simp del]
  Browser_loop.simps [simp del]

lemmas dom_defs = Find_def First_def Length_def Text_def Attr_def Attr_or_empty_def Each_def
  Children_def
lemmas demo_defs = text_node_def link_node_def bing_item_def page_of_def fixed_world_def
  bing_two_def two_hits_def

lemma bing_two_page:
  "Bing_searchPage bing_two q pn =
     ([\<lparr>Title = ''Go'', URL = ''https://go.dev/'', Description = ''The Go programming language'',
        Source = [], Engine = ''bing''\<rparr>,
       \<lparr>Title = ''Go'', URL = ''https://go.dev/doc/'', Description = ''Documentation'',
        Source = [], Engine = ''bing''\<rparr>], None)"
  by (simp add: Bing_searchPage_def Bing_parseResults_def Bing_parseItem_def HasPrefix_def
      dom_defs demo_defs List.map_filter_simps Let_def)


lemma slice_limit_spec:
  assumes "0 \<le> limit"
  shows "\<exists>rs. slice_limit limit xs = Some rs \<and> int (length rs) \<le> limit
           \<and> (limit \<le> int (length xs) \<longrightarrow> rs = take (nat limit) xs \<and> int (length rs) = limit)
           \<and> (int (length xs) \<le> limit \<longrightarrow> rs = xs)"
  using assms by (auto simp: slice_limit_def)

lemma DuckDuckGo_parseItem_length:
  "int (length results) \<le> limit \<Longrightarrow>
   int (length (DuckDuckGo_parseItem W limit results s)) \<le> limit"
  by (simp add: DuckDuckGo_parseItem_def Let_def split: option.splits)

lemma DuckDuckGo_fold_length:
  "int (length results) \<le> limit \<Longrightarrow>
   int (length (fold (\<lambda>s results. DuckDuckGo_parseItem W limit results s) items results)) \<le> limit"
proof (induction items arbitrary: results)
  case Nil
  then show ?case by simp
next
  case (Cons s items)
  show ?case
    using Cons.IH [OF DuckDuckGo_parseItem_length [OF Cons.prems]] by simp
qed

lemma DuckDuckGo_Search_length:
  "0 \<le> limit \<Longrightarrow> int (length (fst (DuckDuckGo_Search W q limit))) \<le> limit"
  using DuckDuckGo_fold_length [of "[]" limit W]
  by (simp add: DuckDuckGo_Search_def DuckDuckGo_parseResults_def split: sum.splits)

lemma Bing_Search_limit:
  assumes "0 \<le> limit"
  shows "\<exists>rs err. fst (Bing_Search W q limit) = Some (rs, err) \<and> int (length rs) \<le> limit"
    and "Bing_loop W q limit [] 0 = (Inr acc, fetched) \<Longrightarrow> limit \<le> int (length acc) \<Longrightarrow>
         Bing_Search W q limit = (Some (take (nat limit) acc, None), fetched)
         \<and> int (length (take (nat limit) acc)) = limit"
proof -
  obtain exit fetched' where l: "Bing_loop W q limit [] 0 = (exit, fetched')"
    by (cases "Bing_loop W q limit [] 0")
  show "\<exists>rs err. fst (Bing_Search W q limit) = Some (rs, err) \<and> int (length rs) \<le> limit"
  proof (cases exit)
    case (Inl err)
    then show ?thesis using l assms by (simp add: Bing_Search_def)
  next
    case (Inr all)
    then show ?thesis
      using l slice_limit_spec [OF assms, of all] by (auto simp: Bing_Search_def)
  qed
  show "Bing_loop W q limit [] 0 = (Inr acc, fetched) \<Longrightarrow> limit \<le> int (length acc) \<Longrightarrow>
         Bing_Search W q limit = (Some (take (nat limit) acc, None), fetched)
         \<and> int (length (take (nat limit) acc)) = limit"
    using slice_limit_spec [OF assms, of acc] by (auto simp: Bing_Search_def)
qed

lemma Baidu_Search_limit:
  assumes "0 \<le> limit"
  shows "\<exists>rs err. fst (Baidu_Search W q limit) = Some (rs, err) \<and> int (length rs) \<le> limit"
    and "Baidu_loop W q limit [] 0 = (Inr acc, sent) \<Longrightarrow> limit \<le> int (length acc) \<Longrightarrow>
         Baidu_Search W q limit = (Some (take (nat limit) acc, None), BaiduHome # sent)
         \<and> int (length (take (nat limit) acc)) = limit"
proof -
  obtain exit sent' where l: "Baidu_loop W q limit [] 0 = (exit, sent')"
    by (cases "Baidu_loop W q limit [] 0")
  show "\<exists>rs err. fst (Baidu_Search W q limit) = Some (rs, err) \<and> int (length rs) \<le> limit"
  proof (cases exit)
    case (Inl err)
    then show ?thesis using l assms by (simp add: Baidu_Search_def)
  next
    case (Inr all)
    then show ?thesis
      using l slice_limit_spec [OF assms, of all] by (auto simp: Baidu_Search_def)
  qed
  show "Baidu_loop W q limit [] 0 = (Inr acc, sent) \<Longrightarrow> limit \<le> int (length acc) \<Longrightarrow>
         Baidu_Search W q limit = (Some (take (nat limit) acc, None), BaiduHome # sent)
         \<and> int (length (take (nat limit) acc)) = limit"
    using slice_limit_spec [OF assms, of acc] by (auto simp: Baidu_Search_def)
qed

lemma Sogou_Search_limit:
  assumes "0 \<le> limit"
  shows "\<exists>rs err. fst (Sogou_Search W q limit) = Some (rs, err) \<and> int (length rs) \<le> limit"
    and "Sogou_loop W q limit [] 1 = (Inr acc, fetched) \<Longrightarrow> limit \<le> int (length acc) \<Longrightarrow>
         Sogou_Search W q limit = (Some (take (nat limit) acc, None), fetched)
         \<and> int (length (take (nat limit) acc)) = limit"
proof -
  obtain exit fetched' where l: "Sogou_loop W q limit [] 1 = (exit, fetched')"
    by (cases "Sogou_loop W q limit [] 1")
  show "\<exists>rs err. fst (Sogou_Search W q limit) = Some (rs, err) \<and> int (length rs) \<le> limit"
  proof (cases exit)
    case (Inl err)
    then show ?thesis using l assms by (simp add: Sogou_Search_def)
  next
    case (Inr all)
    then show ?thesis
      using l slice_limit_spec [OF assms, of all] by (auto simp: Sogou_Search_def)
  qed
  show "Sogou_loop W q limit [] 1 = (Inr acc, fetched) \<Longrightarrow> limit \<le> int (length acc) \<Longrightarrow>
         Sogou_Search W q limit = (Some (take (nat limit) acc, None), fetched)
         \<and> int (length (take (nat limit) acc)) = limit"
    using slice_limit_spec [OF assms, of acc] by (auto simp: Sogou_Search_def)
qed

lemma Browser_Search_limit:
  assumes "0 \<le> limit" and "Browser_Search H e bm q limit = Returns ((rs, err), fetched)"
  shows "int (length rs) \<le> limit"
proof -
  have "\<And>all. slice_limit limit all = Some rs \<Longrightarrow> int (length rs) \<le> limit"
    using slice_limit_spec [OF assms(1)] by (metis option.inject)
  then show ?thesis
    using assms
    by (auto simp: Browser_Search_def split: outcome.splits option.splits sum.splits prod.splits)
qed

text \<open>
  C2.  A call of an engine's \<open>Search\<close> with a positive limit never returns more than
  \<open>limit\<close> results; the three paged HTTP engines always return for such a limit; and
  when the pages accumulated reach or exceed the limit, what is returned is exactly
  the first \<open>limit\<close> results accumulated.  The browser engines share one \<open>Search\<close>.
\<close>

theorem engines_respect_limit:
  assumes "0 < limit"
  shows "(\<exists>rs err. fst (Bing_Search W q limit) = Some (rs, err) \<and> int (length rs) \<le> limit)
       \<and> (\<exists>rs err. fst (Baidu_Search W q limit) = Some (rs, err) \<and> int (length rs) \<le> limit)
       \<and> (\<exists>rs err. fst (Sogou_Search W q limit) = Some (rs, err) \<and> int (length rs) \<le> limit)
       \<and> int (length (fst (DuckDuckGo_Search W q limit))) \<le> limit
       \<and> (\<forall>rs err fetched. Browser_Search H e bm q limit = Returns ((rs, err), fetched)
             \<longrightarrow> int (length rs) \<le> limit)
       \<and> (\<forall>acc fetched. Bing_loop W q limit [] 0 = (Inr acc, fetched) \<and> limit \<le> int (length acc)
             \<longrightarrow> Bing_Search W q limit = (Some (take (nat limit) acc, None), fetched)
                 \<and> int (length (take (nat limit) acc)) = limit)
       \<and> (\<forall>acc sent. Baidu_loop W q limit [] 0 = (Inr acc, sent) \<and> limit \<le> int (length acc)
             \<longrightarrow> Baidu_Search W q limit = (Some (take (nat limit) acc, None), BaiduHome # sent)
                 \<and> int (length (take (nat limit) acc)) = limit)
       \<and> (\<forall>acc fetched. Sogou_loop W q limit [] 1 = (Inr acc, fetched) \<and> limit \<le> int (length acc)
             \<longrightarrow> Sogou_Search W q limit = (Some (take (nat limit) acc, None), fetched)
                 \<and> int (length (take (nat limit) acc)) = limit)"
proof -
  have l: "0 \<le> limit" using assms by simp
  show ?thesis
  proof (intro conjI allI impI)
    show "\<exists>rs err. fst (Bing_Search W q limit) = Some (rs, err) \<and> int (length rs) \<le> limit"
      by (rule Bing_Search_limit(1) [OF l])
    show "\<exists>rs err. fst (Baidu_Search W q limit) = Some (rs, err) \<and> int (length rs) \<le> limit"
      by (rule Baidu_Search_limit(1) [OF l])
    show "\<exists>rs err. fst (Sogou_Search W q limit) = Some (rs, err) \<and> int (length rs) \<le> limit"
      by (rule Sogou_Search_limit(1) [OF l])
    show "int (length (fst (DuckDuckGo_Search W q limit))) \<le> limit"
      by (rule DuckDuckGo_Search_length [OF l])
  qed (use l in \<open>auto dest: Browser_Search_limit Bing_Search_limit(2) Baidu_Search_limit(2)
        Sogou_Search_limit(2)\<close>)
qed

theorem engines_respect_limit_witness:
  "(0::int) < 3
   \<and> fst (Bing_Search bing_two ''golang'' 3) =
       Some ([\<lparr>Title = ''Go'', URL = ''https://go.dev/'', Description = ''The Go programming language'',
                Source = [], Engine = ''bing''\<rparr>,
              \<lparr>Title = ''Go'', URL = ''https://go.dev/doc/'', Description = ''Documentation'',
                Source = [], Engine = ''bing''\<rparr>,
              \<lparr>Title = ''Go'', URL = ''https://go.dev/'', Description = ''The Go programming language'',
                Source = [], Engine = ''bing''\<rparr>], None)
   \<and> int (length (fst (the (fst (Bing_Search bing_two ''golang'' 3))))) \<le> 3"
  using engines_respect_limit [of 3 bing_two "''golang''"]
  by (simp add: Bing_Search_def Bing_loop.simps bing_two_page slice_limit_def)

section \<open>Properties of the engines: the page cap\<close>

text \<open>
  The number of calls of \<open>searchPage\<close> in one search: at most five for Sogou and for
  Baidu, whose loops carry the comment "at most 5 pages", and at most six for Bing,
  whose counter starts at 0 and is tested with \<open>pn > 5\<close> after the increment.
\<close>

lemma Bing_loop_fetches:
  "length (snd (Bing_loop W q limit acc pn)) \<le> max 1 (nat (6 - pn))"
proof (induction W q limit acc pn rule: Bing_loop.induct)
  case (1 W q limit acc pn)
  show ?case
  proof (cases "int (length acc) < limit")
    case False
    then show ?thesis by (simp add: Bing_loop.simps [of W q limit acc pn])
  next
    case more: True
    obtain results err where sp: "Bing_searchPage W q pn = (results, err)"
      by (cases "Bing_searchPage W q pn")
    show ?thesis
    proof (cases "err = None \<and> results \<noteq> [] \<and> \<not> pn + 1 > 5")
      case False
      then show ?thesis
        using more sp by (auto simp: Bing_loop.simps [of W q limit acc pn] split: option.splits)
    next
      case True
      then have "length (snd (Bing_loop W q limit (acc @ results) (pn + 1)))
                   \<le> max 1 (nat (6 - (pn + 1)))"
        using "1.IH" [OF more sp [symmetric]] by simp
      then show ?thesis
        using True more sp
        by (auto simp: Bing_loop.simps [of W q limit acc pn] split: prod.splits)
    qed
  qed
qed

lemma Sogou_loop_fetches:
  "length (snd (Sogou_loop W q limit acc page)) \<le> max 1 (nat (6 - page))"
proof (induction W q limit acc page rule: Sogou_loop.induct)
  case (1 W q limit acc page)
  show ?case
  proof (cases "int (length acc) < limit")
    case False
    then show ?thesis by (simp add: Sogou_loop.simps [of W q limit acc page])
  next
    case more: True
    obtain results err where sp: "Sogou_searchPage W q page = (results, err)"
      by (cases "Sogou_searchPage W q page")
    show ?thesis
    proof (cases "err = None \<and> results \<noteq> [] \<and> \<not> page + 1 > 5")
      case False
      then show ?thesis
        using more sp by (auto simp: Sogou_loop.simps [of W q limit acc page] split: option.splits)
    next
      case True
      then have "length (snd (Sogou_loop W q limit (acc @ results) (page + 1)))
                   \<le> max 1 (nat (6 - (page + 1)))"
        using "1.IH" [OF more sp [symmetric]] by simp
      then show ?thesis
        using True more sp
        by (auto simp: Sogou_loop.simps [of W q limit acc page] split: prod.splits)
    qed
  qed
qed

lemma Baidu_searchPage_sent:
  "snd (Baidu_searchPage W q pn) = [BaiduPage q pn]
   \<or> snd (Baidu_searchPage W q pn) = [BaiduPage q pn, BaiduMobilePage q pn]"
  by (auto simp: Baidu_searchPage_def split: sum.splits prod.splits option.splits)

lemma desktop_pages_append: "desktop_pages (xs @ ys) = desktop_pages xs + desktop_pages ys"
  by (induction xs rule: desktop_pages.induct) auto

lemma Baidu_searchPage_desktop: "desktop_pages (snd (Baidu_searchPage W q pn)) = 1"
  using Baidu_searchPage_sent [of W q pn] by auto

lemma Baidu_loop_fetches:
  "desktop_pages (snd (Baidu_loop W q limit acc pn)) \<le> max 1 (nat ((50 - pn) div 10))"
proof (induction W q limit acc pn rule: Baidu_loop.induct)
  case (1 W q limit acc pn)
  show ?case
  proof (cases "int (length acc) < limit")
    case False
    then show ?thesis by (simp add: Baidu_loop.simps [of W q limit acc pn])
  next
    case more: True
    obtain results err sent where sp: "Baidu_searchPage W q pn = ((results, err), sent)"
      by (cases "Baidu_searchPage W q pn") auto
    have one: "desktop_pages sent = 1"
      using Baidu_searchPage_desktop [of W q pn] sp by simp
    show ?thesis
    proof (cases "err = None \<and> results \<noteq> [] \<and> \<not> pn + 10 > 40")
      case False
      then show ?thesis
        using more sp one by (auto simp: Baidu_loop.simps [of W q limit acc pn] split: option.splits)
    next
      case True
      then have "desktop_pages (snd (Baidu_loop W q limit (acc @ results) (pn + 10)))
                   \<le> max 1 (nat ((50 - (pn + 10)) div 10))"
        using "1.IH" [OF more sp [symmetric] refl] by simp
      then show ?thesis
        using True more sp one
        by (auto simp: Baidu_loop.simps [of W q limit acc pn] desktop_pages_append
            split: prod.splits)
    qed
  qed
qed

lemma Bing_Search_fetches: "length (snd (Bing_Search W q limit)) \<le> 6"
  using Bing_loop_fetches [of W q limit "[]" 0]
  by (auto simp: Bing_Search_def split: prod.splits sum.splits)

lemma Sogou_Search_fetches: "length (snd (Sogou_Search W q limit)) \<le> 5"
  using Sogou_loop_fetches [of W q limit "[]" 1]
  by (auto simp: Sogou_Search_def split: prod.splits sum.splits)

lemma Baidu_Search_fetches: "desktop_pages (snd (Baidu_Search W q limit)) \<le> 5"
  using Baidu_loop_fetches [of W q limit "[]" 0]
  by (auto simp: Baidu_Search_def split: prod.splits sum.splits)

text \<open>
  C4.  The claim is that every paged search stops after at most its page cap, a cap
  between 3 and 5, and returns at most that cap times the results of a page.  Bing:
  against a server whose every page has two results, a search with limit 100 fetches
  the six pages 0 to 5 and returns twelve results.
\<close>

theorem Bing_fetches_six_pages:
  "snd (Bing_Search bing_two ''golang'' 100)
     = [BingPage ''golang'' 0, BingPage ''golang'' 1, BingPage ''golang'' 2,
        BingPage ''golang'' 3, BingPage ''golang'' 4, BingPage ''golang'' 5]
   \<and> map_option (\<lambda>r. (length (fst r), snd r)) (fst (Bing_Search bing_two ''golang'' 100))
     = Some (12, None)
   \<and> length (fst (Bing_searchPage bing_two ''golang'' 0)) = 2"
  by (simp add: Bing_Search_def Bing_loop.simps bing_two_page slice_limit_def)

section \<open>Properties of the engines: the Baidu fallback\<close>

lemma HasPrefix_append: "HasPrefix a s \<Longrightarrow> HasPrefix (a @ b) s"
proof -
  assume h: "HasPrefix a s"
  then have "length (take (length s) a) = length s"
    by (simp add: HasPrefix_def)
  then have "length s \<le> length a"
    by simp
  then show ?thesis using h by (simp add: HasPrefix_def)
qed

lemma Contains_append: "Contains a s \<Longrightarrow> Contains (a @ b) s"
proof (induction a)
  case Nil
  then show ?case by (cases b) (simp_all add: HasPrefix_def)
next
  case (Cons c a)
  then show ?case using HasPrefix_append [of "c # a" s b] by auto
qed

lemma captcha_required_Contains:
  "Contains (''baidu rate limited/captcha required: '' @ err) ''captcha''"
  by (rule Contains_append) (simp add: HasPrefix_def)

lemma baidu_first_page:
  "Baidu_searchPage baidu_blocked_later ''golang'' 0 =
     (([\<lparr>Title = ''Go'', URL = ''https://go.dev/'', Description = ''The Go programming language'', Source = [],
         Engine = ''baidu''\<rparr>,
        \<lparr>Title = ''Go'', URL = ''https://go.dev/doc/'', Description = ''Documentation'', Source = [],
         Engine = ''baidu''\<rparr>], None), [BaiduPage ''golang'' 0])"
  by (simp add: Baidu_searchPage_def Baidu_parseResults_def Baidu_parseResultItem_def
      Baidu_description_def cap_description_def Baidu_isInternalLink_def
      baidu_blocked_later_def baidu_page_def baidu_entry_def
      zh_guanggao_def zh_tuiguang_def zh_xiang_zai_ci_tuiguang_def
      zh_baidu_anquan_yanzheng_def zh_anquan_yanzheng_def
      HasPrefix_def dom_defs demo_defs List.map_filter_simps Let_def)

text \<open>
  C5.  In an iteration of the Baidu loop (so fewer than \<open>limit\<close> results are
  accumulated) whose desktop page shows a challenge marker, \<open>searchPage\<close> issues
  exactly one request of the mobile page.  If that fallback fails (any error,
  among them the challenge on the mobile page) or finds no result, the loop ends:
  with results accumulated from earlier pages, \<open>Search\<close> returns exactly these and
  no error; with none, it returns no result and an error that begins with
  \<open>baidu rate limited\<close>.
\<close>

theorem Baidu_challenge_fallback:
  assumes more: "int (length allResults) < limit"
    and body: "http W (BaiduPage q pn) = Inr bodyStr"
    and challenge: "Contains bodyStr ''wappass.baidu.com'' \<or> Contains bodyStr ''captcha''
                    \<or> Contains bodyStr zh_baidu_anquan_yanzheng
                    \<or> Contains bodyStr zh_anquan_yanzheng"
    and fallback: "snd (Baidu_searchPageMobile W q pn) \<noteq> None
                   \<or> fst (Baidu_searchPageMobile W q pn) = []"
  shows "\<exists>err. Baidu_searchPage W q pn
                  = (([], Some err), [BaiduPage q pn, BaiduMobilePage q pn])
           \<and> Baidu_loop W q limit allResults pn
                  = (if length allResults > 0 then Inr allResults
                     else Inl (''baidu rate limited: '' @ err),
                     [BaiduPage q pn, BaiduMobilePage q pn])
           \<and> slice_limit limit allResults = Some allResults
           \<and> (allResults = [] \<and> pn = 0 \<longrightarrow>
                Baidu_Search W q limit
                  = (Some ([], Some (''baidu rate limited: '' @ err)),
                     [BaiduHome, BaiduPage q 0, BaiduMobilePage q 0]))"
proof -
  obtain mobileResults merr where m: "Baidu_searchPageMobile W q pn = (mobileResults, merr)"
    by (cases "Baidu_searchPageMobile W q pn")
  define err where
    "err = (case merr of Some e \<Rightarrow> ''baidu rate limited/captcha required: '' @ e
            | None \<Rightarrow> ''baidu rate limited: captcha required, please try again later or use a proxy'')"
  have page: "Baidu_searchPage W q pn = (([], Some err), [BaiduPage q pn, BaiduMobilePage q pn])"
    using body challenge fallback m
    by (auto simp: Baidu_searchPage_def err_def split: option.splits)
  have c: "Contains err ''captcha''"
  proof (cases merr)
    case None
    then show ?thesis by (simp add: err_def HasPrefix_def)
  next
    case (Some e)
    then show ?thesis by (simp add: err_def captcha_required_Contains del: Contains.simps append.simps)
  qed
  have loop: "Baidu_loop W q limit allResults pn
                = (if length allResults > 0 then Inr allResults
                   else Inl (''baidu rate limited: '' @ err),
                   [BaiduPage q pn, BaiduMobilePage q pn])"
    using more page c by (simp add: Baidu_loop.simps [of W q limit allResults pn])
  have cut: "slice_limit limit allResults = Some allResults"
    using more by (simp add: slice_limit_def)
  have "allResults = [] \<and> pn = 0 \<longrightarrow>
          Baidu_Search W q limit
            = (Some ([], Some (''baidu rate limited: '' @ err)),
               [BaiduHome, BaiduPage q 0, BaiduMobilePage q 0])"
    using loop by (auto simp: Baidu_Search_def)
  with page loop cut show ?thesis by blast
qed


theorem Baidu_challenge_fallback_witness:
  "Baidu_Search baidu_blocked_later ''golang'' 5 =
     (Some ([\<lparr>Title = ''Go'', URL = ''https://go.dev/'', Description = ''The Go programming language'', Source = [],
              Engine = ''baidu''\<rparr>,
             \<lparr>Title = ''Go'', URL = ''https://go.dev/doc/'', Description = ''Documentation'', Source = [],
              Engine = ''baidu''\<rparr>], None),
      [BaiduHome, BaiduPage ''golang'' 0, BaiduPage ''golang'' 10, BaiduMobilePage ''golang'' 10])"
proof -
  let ?found = "[\<lparr>Title = ''Go'', URL = ''https://go.dev/'', Description = ''The Go programming language'', Source = [],
                  Engine = ''baidu''\<rparr>,
                 \<lparr>Title = ''Go'', URL = ''https://go.dev/doc/'', Description = ''Documentation'', Source = [],
                  Engine = ''baidu''\<rparr>]"
  have more: "int (length ?found) < 5" by simp
  have body: "http baidu_blocked_later (BaiduPage ''golang'' 10) = Inr ''captcha''"
    by (simp add: baidu_blocked_later_def fixed_world_def)
  have challenge: "Contains ''captcha'' ''wappass.baidu.com'' \<or> Contains ''captcha'' ''captcha''
                    \<or> Contains ''captcha'' zh_baidu_anquan_yanzheng
                    \<or> Contains ''captcha'' zh_anquan_yanzheng"
    by (simp add: HasPrefix_def)
  have fallback: "snd (Baidu_searchPageMobile baidu_blocked_later ''golang'' 10) \<noteq> None
                   \<or> fst (Baidu_searchPageMobile baidu_blocked_later ''golang'' 10) = []"
    by (simp add: Baidu_searchPageMobile_def baidu_blocked_later_def fixed_world_def HasPrefix_def)
  have "Baidu_loop baidu_blocked_later ''golang'' 5 ?found 10
          = (Inr ?found, [BaiduPage ''golang'' 10, BaiduMobilePage ''golang'' 10])"
    using Baidu_challenge_fallback [OF more body challenge fallback] by auto
  then show ?thesis
    by (simp add: Baidu_Search_def Baidu_loop.simps [of _ _ _ "[]" 0] baidu_first_page
        slice_limit_def)
qed


section \<open>Properties of the extractors: the description\<close>

lemma cap_description_length: "length (cap_description d) \<le> 503"
  by (simp add: cap_description_def)

lemma cap_description_cut:
  "length d > 500 \<Longrightarrow> cap_description d = take 500 d @ ''...''"
  "length d \<le> 500 \<Longrightarrow> cap_description d = d"
  by (simp_all add: cap_description_def)

lemma map_filter_all:
  assumes "\<And>x. case f x of None \<Rightarrow> True | Some r \<Rightarrow> P r"
  shows "\<forall>r \<in> set (List.map_filter f xs). P r"
proof
  fix r assume "r \<in> set (List.map_filter f xs)"
  then obtain x where "f x = Some r" by (auto simp: List.map_filter_def)
  then show "P r" using assms [of x] by simp
qed

lemma Baidu_item_description:
  "case Baidu_parseResultItem W s of None \<Rightarrow> True
   | Some r \<Rightarrow> Description r = cap_description (Baidu_description W s)"
  by (simp add: Baidu_parseResultItem_def Let_def)

lemma Sogou_item_description:
  "case Sogou_parseResultItem W s of None \<Rightarrow> True
   | Some r \<Rightarrow>
       URL r \<noteq> [] \<and>
       Description r =
         cap_description
           (delete_all ''</em>'' 0
              (delete_all ''<em>'' 0
                 (Sogou_desc_loop W s
                    [''.title-summary'', ''.clamp2'', ''.result-summary-exp'',
                     ''.video-desc__descContent_812e''] [])))"
  by (simp add: Sogou_parseResultItem_def Let_def split: prod.split
      del: Sogou_desc_loop.simps Sogou_title_loop.simps delete_all.simps)


lemma Baidu_results_description:
  "\<forall>r \<in> set (Baidu_parseResults W doc). length (Description r) \<le> 503"
proof -
  have "case Baidu_parseResultItem W s of None \<Rightarrow> True
        | Some r \<Rightarrow> length (Description r) \<le> 503" for s
    using Baidu_item_description [of W s]
    by (cases "Baidu_parseResultItem W s") (simp_all add: cap_description_length)
  then show ?thesis
    unfolding Baidu_parseResults_def by (rule map_filter_all)
qed

lemma Sogou_results_description:
  "\<forall>r \<in> set (Sogou_parseResults W doc). length (Description r) \<le> 503"
proof -
  have "case Sogou_parseResultItem W s of None \<Rightarrow> True
        | Some r \<Rightarrow> length (Description r) \<le> 503" for s
    using Sogou_item_description [of W s]
    by (cases "Sogou_parseResultItem W s") (simp_all add: cap_description_length)
  then show ?thesis
    unfolding Sogou_parseResults_def by (rule map_filter_all)
qed


text \<open>
  C6 (as amended).  Every result that the desktop extractor of Baidu or the extractor
  of Sogou emits has a description of at most 503 bytes: a description of more than
  500 bytes is cut to its first 500 bytes, followed by \<open>...\<close>, and a shorter one is
  kept as it is.
\<close>

theorem description_capped_in_Baidu_and_Sogou:
  "(\<forall>r \<in> set (Baidu_parseResults W doc). length (Description r) \<le> 503)
   \<and> (\<forall>r \<in> set (Sogou_parseResults W doc). length (Description r) \<le> 503)
   \<and> (\<forall>r. Baidu_parseResultItem W s = Some r \<longrightarrow>
          Description r = cap_description (Baidu_description W s))
   \<and> (\<forall>r. Sogou_parseResultItem W s = Some r \<longrightarrow>
          Description r =
            cap_description
              (delete_all ''</em>'' 0
                 (delete_all ''<em>'' 0
                    (Sogou_desc_loop W s
                       [''.title-summary'', ''.clamp2'', ''.result-summary-exp'',
                        ''.video-desc__descContent_812e''] []))))
   \<and> (length d > 500 \<longrightarrow> cap_description d = take 500 d @ ''...'')
   \<and> (length d \<le> 500 \<longrightarrow> cap_description d = d)"
proof -
  have b: "\<forall>r. Baidu_parseResultItem W s = Some r \<longrightarrow>
             Description r = cap_description (Baidu_description W s)"
    using Baidu_item_description [of W s] by (cases "Baidu_parseResultItem W s") simp_all
  have g: "\<forall>r. Sogou_parseResultItem W s = Some r \<longrightarrow>
          Description r =
            cap_description
              (delete_all ''</em>'' 0
                 (delete_all ''<em>'' 0
                    (Sogou_desc_loop W s
                       [''.title-summary'', ''.clamp2'', ''.result-summary-exp'',
                        ''.video-desc__descContent_812e''] [])))"
    using Sogou_item_description [of W s] by (cases "Sogou_parseResultItem W s") simp_all
  show ?thesis
    using Baidu_results_description [of W doc] Sogou_results_description [of W doc] b g
      cap_description_cut [of d]
    by blast
qed

theorem description_capped_in_Baidu_and_Sogou_witness:
  "map Description (Baidu_parseResults (fixed_world baidu_long) [baidu_long])
     = [replicate 500 (CHR ''a'') @ ''...'']
   \<and> length (replicate 500 (CHR ''a'') @ ''...'') = 503"
  using description_capped_in_Baidu_and_Sogou
    [of "fixed_world baidu_long" "[baidu_long]"
        "[baidu_entry ''https://go.dev/'' (replicate 600 (CHR ''a''))]"
        "replicate 600 (CHR ''a'')"]
  by (simp add: Baidu_parseResults_def Baidu_parseResultItem_def Baidu_description_def
      Baidu_isInternalLink_def baidu_long_def baidu_entry_def
      zh_guanggao_def zh_tuiguang_def zh_xiang_zai_ci_tuiguang_def
      HasPrefix_def dom_defs demo_defs List.map_filter_simps Let_def)

text \<open>The claim as stated fails for Bing, whose extractor has no cap: a description
  of 600 bytes is emitted with its 600 bytes.\<close>

theorem Bing_description_uncapped:
  "map (\<lambda>r. length (Description r)) (Bing_parseResults (fixed_world bing_long) [bing_long])
     = [600]"
  by (simp add: Bing_parseResults_def Bing_parseItem_def bing_long_def HasPrefix_def
      dom_defs demo_defs List.map_filter_simps Let_def)

section \<open>Properties of the extractors: the URL\<close>

lemma Bing_item_url': "case Bing_parseItem W s of None \<Rightarrow> True | Some r \<Rightarrow> HasPrefix (URL r) ''http''"
  by (simp add: Bing_parseItem_def Let_def split: option.split del: first_text.simps)

lemma Baidu_item_url':
  "case Baidu_parseResultItem W s of None \<Rightarrow> True | Some r \<Rightarrow> HasPrefix (URL r) ''http''"
  by (simp add: Baidu_parseResultItem_def Let_def)

lemma Baidu_mobile_item_url':
  "case Baidu_parseMobileItem W s of None \<Rightarrow> True | Some r \<Rightarrow> HasPrefix (URL r) ''http''"
  by (simp add: Baidu_parseMobileItem_def Let_def)

lemma BrowserBing_item_url':
  "case BrowserBing_parseItem W s of None \<Rightarrow> True | Some r \<Rightarrow> HasPrefix (URL r) ''http''"
  by (simp add: BrowserBing_parseItem_def Let_def split: option.split)

lemma BrowserGoogle_item_url':
  "case BrowserGoogle_parseItem W sel s of None \<Rightarrow> True | Some r \<Rightarrow> HasPrefix (URL r) ''http''"
  by (simp add: BrowserGoogle_parseItem_def Let_def split: option.split del: first_text.simps)

lemma BrowserBaidu_item_url':
  "case BrowserBaidu_parseItem W s of None \<Rightarrow> True | Some r \<Rightarrow> HasPrefix (URL r) ''http''"
  by (simp add: BrowserBaidu_parseItem_def Let_def split: option.split del: first_text.simps)


lemma Bing_selectors_url:
  "\<forall>r \<in> set results. HasPrefix (URL r) ''http'' \<Longrightarrow>
   \<forall>r \<in> set (Bing_selectors W doc sels results). HasPrefix (URL r) ''http''"
proof (induction sels arbitrary: results)
  case Nil
  then show ?case by simp
next
  case (Cons sel sels)
  let ?new = "results @ List.map_filter (Bing_parseItem W) (Each (Find doc sel))"
  have "\<forall>r \<in> set ?new. HasPrefix (URL r) ''http''"
    using Cons.prems map_filter_all [where f = "Bing_parseItem W", OF Bing_item_url'] by auto
  then show ?case
    using Cons.IH [of ?new] by (simp add: Let_def)
qed

lemma Bing_regex_url:
  "\<forall>r \<in> set results. HasPrefix (URL r) ''http'' \<Longrightarrow>
   \<forall>r \<in> set (Bing_regex_loop W matches seen results). HasPrefix (URL r) ''http''"
proof (induction matches arbitrary: seen results)
  case Nil
  then show ?case by simp
next
  case (Cons match matches)
  let ?new = "results @ [\<lparr>Title = TrimSpace W (match ! 2), URL = match ! 1,
                           Description = [], Source = [], Engine = ''bing''\<rparr>]"
  have old: "\<forall>r \<in> set (Bing_regex_loop W matches seen results). HasPrefix (URL r) ''http''"
    by (rule Cons.IH [OF Cons.prems])
  have new: "HasPrefix (match ! 1) ''http'' \<Longrightarrow>
      (\<forall>r \<in> set ?new. HasPrefix (URL r) ''http'')
      \<and> (\<forall>r \<in> set (Bing_regex_loop W matches (insert (match ! 1) seen) ?new).
            HasPrefix (URL r) ''http'')"
  proof -
    assume h: "HasPrefix (match ! 1) ''http''"
    have a: "\<forall>r \<in> set ?new. HasPrefix (URL r) ''http''" using Cons.prems h by simp
    show ?thesis using a Cons.IH [OF a] by blast
  qed
  show ?case
    using old new by (simp add: Let_def)
qed


lemma Bing_page_url:
  "\<forall>r \<in> set (fst (Bing_searchPage W q pn)). HasPrefix (URL r) ''http''"
proof (cases "http W (BingPage q pn)")
  case (Inl err)
  then show ?thesis by (simp add: Bing_searchPage_def)
next
  case (Inr bodyStr)
  show ?thesis
  proof (cases "NewDocument W bodyStr")
    case (Inl err)
    then show ?thesis using Inr by (simp add: Bing_searchPage_def)
  next
    case doc: (Inr doc)
    have a: "\<forall>r \<in> set (Bing_parseResults W [doc]). HasPrefix (URL r) ''http''"
      unfolding Bing_parseResults_def by (rule Bing_selectors_url) simp
    have b: "\<forall>r \<in> set (Bing_extractResultsWithRegex W bodyStr). HasPrefix (URL r) ''http''"
      unfolding Bing_extractResultsWithRegex_def by (rule Bing_regex_url) simp
    show ?thesis
      using a b Inr doc by (simp add: Bing_searchPage_def Let_def)
  qed
qed

lemma DuckDuckGo_item_url:
  "\<forall>r \<in> set results. HasPrefix (URL r) ''http'' \<Longrightarrow>
   \<forall>r \<in> set (DuckDuckGo_parseItem W limit results s). HasPrefix (URL r) ''http''"
  by (simp add: DuckDuckGo_parseItem_def Let_def split: option.split)

lemma DuckDuckGo_fold_url:
  "\<forall>r \<in> set results. HasPrefix (URL r) ''http'' \<Longrightarrow>
   \<forall>r \<in> set (fold (\<lambda>s results. DuckDuckGo_parseItem W limit results s) items results).
      HasPrefix (URL r) ''http''"
proof (induction items arbitrary: results)
  case Nil
  then show ?case by simp
next
  case (Cons s items)
  show ?case
    using Cons.IH [OF DuckDuckGo_item_url [OF Cons.prems]] by simp
qed

lemma DuckDuckGo_results_url:
  "\<forall>r \<in> set (DuckDuckGo_parseResults W doc limit). HasPrefix (URL r) ''http''"
  unfolding DuckDuckGo_parseResults_def by (rule DuckDuckGo_fold_url) simp

lemma BrowserGoogle_selectors_url:
  "\<forall>r \<in> set results. HasPrefix (URL r) ''http'' \<Longrightarrow>
   \<forall>r \<in> set (BrowserGoogle_selectors W doc sels results). HasPrefix (URL r) ''http''"
proof (induction sels arbitrary: results)
  case Nil
  then show ?case by simp
next
  case (Cons sel sels)
  let ?new = "results @ List.map_filter (BrowserGoogle_parseItem W sel) (Each (Find doc sel))"
  have "\<forall>r \<in> set ?new. HasPrefix (URL r) ''http''"
    using Cons.prems
      map_filter_all [where f = "BrowserGoogle_parseItem W sel", OF BrowserGoogle_item_url']
    by auto
  then show ?case
    using Cons.IH [of ?new] by (simp add: Let_def)
qed

lemma unique_by_URL_subset: "set (unique_by_URL results seen) \<subseteq> set results"
  by (induction results arbitrary: seen) auto

lemma BrowserGoogle_html_url:
  "\<forall>r \<in> set (fst (BrowserGoogle_parseHTML W html)). HasPrefix (URL r) ''http''"
proof (cases "NewDocument W html")
  case (Inl err)
  then show ?thesis by (simp add: BrowserGoogle_parseHTML_def)
next
  case (Inr doc)
  have "\<forall>r \<in> set (BrowserGoogle_selectors W [doc]
                      [''div.g'', ''div[data-ved]'', ''div.Gx5Zad''] []). HasPrefix (URL r) ''http''"
    by (rule BrowserGoogle_selectors_url) simp
  then show ?thesis
    using Inr unique_by_URL_subset by (fastforce simp: BrowserGoogle_parseHTML_def)
qed

lemma BrowserBing_html_url:
  "\<forall>r \<in> set (fst (BrowserBing_parseHTML W html)). HasPrefix (URL r) ''http''"
  using map_filter_all [where f = "BrowserBing_parseItem W", OF BrowserBing_item_url']
  by (simp add: BrowserBing_parseHTML_def split: sum.split)

lemma BrowserBaidu_html_url:
  "\<forall>r \<in> set (fst (BrowserBaidu_parseHTML W html)). HasPrefix (URL r) ''http''"
  using map_filter_all [where f = "BrowserBaidu_parseItem W", OF BrowserBaidu_item_url']
  by (simp add: BrowserBaidu_parseHTML_def split: sum.split)

lemma Baidu_results_url:
  "\<forall>r \<in> set (Baidu_parseResults W doc). HasPrefix (URL r) ''http''"
  unfolding Baidu_parseResults_def by (rule map_filter_all) (rule Baidu_item_url')

lemma Baidu_mobile_results_url:
  "\<forall>r \<in> set (Baidu_parseMobileResults W doc). HasPrefix (URL r) ''http''"
  unfolding Baidu_parseMobileResults_def by (rule map_filter_all) (rule Baidu_mobile_item_url')

lemma Sogou_results_url: "\<forall>r \<in> set (Sogou_parseResults W doc). URL r \<noteq> []"
proof -
  have "case Sogou_parseResultItem W s of None \<Rightarrow> True | Some r \<Rightarrow> URL r \<noteq> []" for s
    using Sogou_item_description [of W s] by (cases "Sogou_parseResultItem W s") simp_all
  then show ?thesis
    unfolding Sogou_parseResults_def by (rule map_filter_all)
qed

lemma HasPrefix_http_nonempty: "HasPrefix u ''http'' \<Longrightarrow> u \<noteq> []"
  by (auto simp: HasPrefix_def)

text \<open>
  C8 (as amended).  Every result emitted by the extraction of Bing (both passes),
  DuckDuckGo, Baidu (desktop and mobile) and the three browser engines has a URL that
  begins with the four bytes \<open>http\<close>, hence is not empty; every result emitted by the
  extraction of Sogou has a non-empty URL.
\<close>

theorem emitted_url_begins_with_http:
  "(\<forall>r \<in> set (Bing_parseResults W doc). HasPrefix (URL r) ''http'' \<and> URL r \<noteq> [])
   \<and> (\<forall>r \<in> set (Bing_extractResultsWithRegex W html). HasPrefix (URL r) ''http'' \<and> URL r \<noteq> [])
   \<and> (\<forall>r \<in> set (DuckDuckGo_parseResults W doc limit). HasPrefix (URL r) ''http'' \<and> URL r \<noteq> [])
   \<and> (\<forall>r \<in> set (Baidu_parseResults W doc). HasPrefix (URL r) ''http'' \<and> URL r \<noteq> [])
   \<and> (\<forall>r \<in> set (Baidu_parseMobileResults W doc). HasPrefix (URL r) ''http'' \<and> URL r \<noteq> [])
   \<and> (\<forall>r \<in> set (fst (BrowserBing_parseHTML W html)). HasPrefix (URL r) ''http'' \<and> URL r \<noteq> [])
   \<and> (\<forall>r \<in> set (fst (BrowserGoogle_parseHTML W html)). HasPrefix (URL r) ''http'' \<and> URL r \<noteq> [])
   \<and> (\<forall>r \<in> set (fst (BrowserBaidu_parseHTML W html)). HasPrefix (URL r) ''http'' \<and> URL r \<noteq> [])
   \<and> (\<forall>r \<in> set (Sogou_parseResults W doc). URL r \<noteq> [])"
proof -
  have a: "\<forall>r \<in> set (Bing_parseResults W doc). HasPrefix (URL r) ''http''"
    unfolding Bing_parseResults_def by (rule Bing_selectors_url) simp
  have b: "\<forall>r \<in> set (Bing_extractResultsWithRegex W html). HasPrefix (URL r) ''http''"
    unfolding Bing_extractResultsWithRegex_def by (rule Bing_regex_url) simp
  show ?thesis
    using a b DuckDuckGo_results_url [of W doc limit] Baidu_results_url [of W doc]
      Baidu_mobile_results_url [of W doc] BrowserBing_html_url [of W html]
      BrowserGoogle_html_url [of W html] BrowserBaidu_html_url [of W html]
      Sogou_results_url [of W doc]
    by (simp add: HasPrefix_http_nonempty)
qed


theorem emitted_url_begins_with_http_witness:
  "map URL (Bing_parseResults bing_two [two_hits]) = [''https://go.dev/'', ''https://go.dev/doc/'']
   \<and> list_all (\<lambda>r. HasPrefix (URL r) ''http'' \<and> URL r \<noteq> [])
         (Bing_parseResults bing_two [two_hits])"
  using emitted_url_begins_with_http [of bing_two "[two_hits]"]
  by (simp add: Bing_parseResults_def Bing_parseItem_def HasPrefix_def
      dom_defs demo_defs List.map_filter_simps Let_def)

text \<open>The claim as stated fails: the test is for the prefix \<open>http\<close>, not for the
  scheme, so Bing emits a link whose scheme is \<open>httpfoo\<close>.\<close>

theorem Bing_emits_other_scheme:
  "map URL (Bing_parseResults (fixed_world bing_odd) [bing_odd]) = [''httpfoo://x'']
   \<and> \<not> list_all (\<lambda>r. URL r \<noteq> [] \<and> http_or_https (URL r))
         (Bing_parseResults (fixed_world bing_odd) [bing_odd])"
  by (simp add: Bing_parseResults_def Bing_parseItem_def bing_odd_def HasPrefix_def
      http_or_https_def dom_defs demo_defs List.map_filter_simps Let_def)

text \<open>Sogou completes relative paths but has no test of the prefix afterwards.\<close>

lemma Sogou_emits_script_link:
  "map URL (Sogou_parseResults (fixed_world sogou_script_link) [sogou_script_link])
     = [''javascript:void(0)'']"
  by (simp add: Sogou_parseResults_def Sogou_parseResultItem_def Sogou_isInternalLink_def
      sogou_script_link_def zh_guanggao_def zh_tuiguang_def HasPrefix_def TrimPrefix_def
      dom_defs demo_defs List.map_filter_simps Let_def)


section \<open>Properties of the shared browser\<close>

lemma unlock_lock: "\<not> mu bm \<Longrightarrow> Unlock (bm\<lparr>mu := True\<rparr>) = bm"
  by (cases bm) (simp add: Unlock_def)

lemma Initialize_ready:
  "\<not> mu bm \<Longrightarrow> initialized bm \<Longrightarrow> Initialize H bm proxy hl = Returns (None, bm, [])"
  by (simp add: Initialize_def Lock_def unlock_lock)

lemma Initialize_fresh:
  assumes "\<not> mu bm" and "\<not> initialized bm"
  shows "\<exists>err bm' events. Initialize H bm proxy hl = Returns (err, bm', events)
           \<and> events \<noteq> [] \<and> \<not> mu bm' \<and> (initialized bm' \<longleftrightarrow> err = None)
           \<and> (err = None \<longleftrightarrow> findChromePath H \<noteq> [] \<and> start_browser H = None)
           \<and> (err = None \<longrightarrow> events = [LookForChrome, LaunchBrowser])"
  using assms
  by (auto simp: Initialize_def Lock_def Unlock_def Let_def split: option.splits)

lemma Initialize_callers_ready:
  "\<not> mu bm \<Longrightarrow> initialized bm \<Longrightarrow>
   Initialize_callers bm callers = Returns (replicate (length callers) (None, []), bm)"
  by (induction callers) (auto simp: Initialize_ready)

lemma Initialize_callers_first:
  assumes "\<not> mu bm" and "\<not> initialized bm"
    and "findChromePath H \<noteq> []" and "start_browser H = None"
  shows "\<exists>bm'. Initialize_callers bm ((H, proxy, hl) # callers)
                 = Returns ((None, [LookForChrome, LaunchBrowser])
                            # replicate (length callers) (None, []), bm')"
proof -
  obtain err bm1 events where
    i: "Initialize H bm proxy hl = Returns (err, bm1, events)" and
    mu1: "\<not> mu bm1" and init1: "initialized bm1 \<longleftrightarrow> err = None" and
    ok: "err = None \<longleftrightarrow> findChromePath H \<noteq> [] \<and> start_browser H = None" and
    ev: "err = None \<longrightarrow> events = [LookForChrome, LaunchBrowser]"
    using Initialize_fresh [OF assms(1,2), of H proxy hl] by blast
  have "err = None" using ok assms(3,4) by simp
  then show ?thesis
    using i ev init1 Initialize_callers_ready [OF mu1, of callers] by simp
qed

lemma Initialize_callers_serial:
  assumes "\<not> mu bm"
  shows "\<exists>rs bm'. Initialize_callers bm callers = Returns (rs, bm')
           \<and> length rs = length callers \<and> \<not> mu bm'
           \<and> (initialized bm \<longrightarrow> rs = replicate (length callers) (None, []) \<and> bm' = bm)
           \<and> length (filter (\<lambda>r. fst r = None \<and> snd r \<noteq> []) rs) \<le> 1
           \<and> (\<forall>i j. i < j \<and> j < length rs \<and> fst (rs ! i) = None \<longrightarrow> rs ! j = (None, []))
           \<and> (initialized bm' \<longleftrightarrow> initialized bm \<or> (\<exists>r \<in> set rs. fst r = None))"
  using assms
proof (induction callers arbitrary: bm)
  case Nil
  then show ?case by simp
next
  case (Cons c callers)
  obtain H proxy hl where c: "c = (H, proxy, hl)" by (cases c)
  show ?case
  proof (cases "initialized bm")
    case True
    show ?thesis
      using Initialize_callers_ready [OF Cons.prems True, of "c # callers"] True Cons.prems
      by (auto simp: nth_Cons split: nat.splits)
  next
    case False
    obtain err bm1 events where
      i: "Initialize H bm proxy hl = Returns (err, bm1, events)" and
      ev: "events \<noteq> []" and mu1: "\<not> mu bm1" and
      init1: "initialized bm1 \<longleftrightarrow> err = None"
      using Initialize_fresh [OF Cons.prems False, of H proxy hl] by blast
    obtain rs bm' where
      r: "Initialize_callers bm1 callers = Returns (rs, bm')" and
      len: "length rs = length callers" and mu': "\<not> mu bm'" and
      ready: "initialized bm1 \<longrightarrow> rs = replicate (length callers) (None, []) \<and> bm' = bm1" and
      once: "length (filter (\<lambda>r. fst r = None \<and> snd r \<noteq> []) rs) \<le> 1" and
      later: "\<forall>i j. i < j \<and> j < length rs \<and> fst (rs ! i) = None \<longrightarrow> rs ! j = (None, [])" and
      fin: "initialized bm' \<longleftrightarrow> initialized bm1 \<or> (\<exists>r \<in> set rs. fst r = None)"
      using Cons.IH [OF mu1] by blast
    have all: "Initialize_callers bm (c # callers) = Returns ((err, events) # rs, bm')"
      using i r c by simp
    have once': "length (filter (\<lambda>r. fst r = None \<and> snd r \<noteq> []) ((err, events) # rs)) \<le> 1"
    proof (cases "err = None")
      case True
      then have "rs = replicate (length callers) (None, [])" using ready init1 by simp
      then have "filter (\<lambda>r. fst r = None \<and> snd r \<noteq> []) rs = []" by simp
      then show ?thesis by simp
    next
      case False
      then show ?thesis using once by auto
    qed
    have later': "\<forall>i j. i < j \<and> j < length ((err, events) # rs)
                    \<and> fst (((err, events) # rs) ! i) = None
                    \<longrightarrow> ((err, events) # rs) ! j = (None, [])"
    proof (intro allI impI)
      fix i j
      assume h: "i < j \<and> j < length ((err, events) # rs)
                 \<and> fst (((err, events) # rs) ! i) = None"
      show "((err, events) # rs) ! j = (None, [])"
      proof (cases i)
        case 0
        then have "err = None" using h by simp
        then have "rs = replicate (length callers) (None, [])" using ready init1 by simp
        then show ?thesis using h 0 len by (cases j) auto
      next
        case (Suc i')
        then obtain j' where j: "j = Suc j'" using h by (cases j) auto
        then show ?thesis using later h Suc by auto
      qed
    qed
    have fin': "initialized bm' \<longleftrightarrow> initialized bm \<or> (\<exists>r \<in> set ((err, events) # rs). fst r = None)"
      using fin init1 False by auto
    show ?thesis
      using all len mu' False once' later' fin' by simp
  qed
qed

text \<open>
  C9 (as amended).  Calls of \<open>Initialize\<close> hold the mutex for their whole body, so
  concurrent calls take effect one after the other; from a manager whose mutex is
  free, and for every order and every behaviour of the machine, all callers return.
  Once a call has returned success, every later call returns success with no event
  and leaves the manager as it is; so at most one call completes an initialization
  with success, and on a manager that is ready no call does anything.  A failed
  initialization leaves the manager uninitialized.  When the machine lets the first
  caller's initialization succeed, that one sequence is the only one executed and all
  callers return success.
\<close>

theorem Initialize_serialised:
  assumes "\<not> mu bm"
  shows "\<exists>rs bm'. Initialize_callers bm callers = Returns (rs, bm')
           \<and> length rs = length callers \<and> \<not> mu bm'
           \<and> (initialized bm \<longrightarrow> rs = replicate (length callers) (None, []) \<and> bm' = bm)
           \<and> length (filter (\<lambda>r. fst r = None \<and> snd r \<noteq> []) rs) \<le> 1
           \<and> (\<forall>i j. i < j \<and> j < length rs \<and> fst (rs ! i) = None \<longrightarrow> rs ! j = (None, []))
           \<and> (initialized bm' \<longleftrightarrow> initialized bm \<or> (\<exists>r \<in> set rs. fst r = None))
           \<and> (\<forall>H proxy hl rest.
                 \<not> initialized bm \<and> callers = (H, proxy, hl) # rest
                 \<and> findChromePath H \<noteq> [] \<and> start_browser H = None
                 \<longrightarrow> rs = (None, [LookForChrome, LaunchBrowser])
                            # replicate (length rest) (None, []))"
proof -
  obtain rs bm' where
    r: "Initialize_callers bm callers = Returns (rs, bm')" and
    rest: "length rs = length callers \<and> \<not> mu bm'
           \<and> (initialized bm \<longrightarrow> rs = replicate (length callers) (None, []) \<and> bm' = bm)
           \<and> length (filter (\<lambda>r. fst r = None \<and> snd r \<noteq> []) rs) \<le> 1
           \<and> (\<forall>i j. i < j \<and> j < length rs \<and> fst (rs ! i) = None \<longrightarrow> rs ! j = (None, []))
           \<and> (initialized bm' \<longleftrightarrow> initialized bm \<or> (\<exists>r \<in> set rs. fst r = None))"
    using Initialize_callers_serial [OF assms, of callers] by blast
  have first: "\<forall>H proxy hl rest.
                 \<not> initialized bm \<and> callers = (H, proxy, hl) # rest
                 \<and> findChromePath H \<noteq> [] \<and> start_browser H = None
                 \<longrightarrow> rs = (None, [LookForChrome, LaunchBrowser])
                            # replicate (length rest) (None, [])"
  proof (intro allI impI)
    fix H proxy hl rest
    assume h: "\<not> initialized bm \<and> callers = (H, proxy, hl) # rest
               \<and> findChromePath H \<noteq> [] \<and> start_browser H = None"
    then obtain bm'' where
      "Initialize_callers bm ((H, proxy, hl) # rest)
         = Returns ((None, [LookForChrome, LaunchBrowser])
                    # replicate (length rest) (None, []), bm'')"
      using Initialize_callers_first [OF assms, of H proxy hl rest] by blast
    then show "rs = (None, [LookForChrome, LaunchBrowser]) # replicate (length rest) (None, [])"
      using r h by simp
  qed
  show ?thesis using r rest first by blast
qed

theorem Initialize_serialised_witness:
  "\<not> mu GetBrowserManager
   \<and> (case Initialize_callers GetBrowserManager
            [(chrome_works, [], True), (chrome_works, ''http://127.0.0.1:7890'', False),
             (chrome_works, [], True)] of
        Returns (rs, bm) \<Rightarrow> rs | Blocks \<Rightarrow> [] | Panics \<Rightarrow> [])
       = [(None, [LookForChrome, LaunchBrowser]), (None, []), (None, [])]"
proof -
  have free: "\<not> mu GetBrowserManager" by (simp add: GetBrowserManager_def)
  show ?thesis
    using Initialize_serialised [OF free, of "[(chrome_works, [], True),
        (chrome_works, ''http://127.0.0.1:7890'', False), (chrome_works, [], True)]"]
    by (simp add: Initialize_def Lock_def Unlock_def GetBrowserManager_def chrome_works_def
        Let_def)
qed

text \<open>The claim as stated fails when the initialization fails: each of two callers
  runs the whole sequence and launches the browser.\<close>

theorem Initialize_repeats_after_failure:
  "(case Initialize_callers GetBrowserManager
           [(launch_fails, [], True), (launch_fails, [], True)] of
      Returns (rs, bm) \<Rightarrow> rs | Blocks \<Rightarrow> [] | Panics \<Rightarrow> [])
     = [(Some ''failed to start browser: chrome failed to start'', [LookForChrome, LaunchBrowser]),
        (Some ''failed to start browser: chrome failed to start'', [LookForChrome, LaunchBrowser])]"
  by (simp add: Initialize_def Lock_def Unlock_def GetBrowserManager_def launch_fails_def Let_def)


lemma NewTabContext_uninitialized: "\<not> initialized bm \<Longrightarrow> NewTabContext H bm timeout = Blocks"
  by (simp add: NewTabContext_def Initialize_def Lock_def)

lemma NewTabContext_ready:
  "\<not> mu bm \<Longrightarrow> initialized bm \<Longrightarrow> browserCtx bm = Some parent \<Longrightarrow>
   NewTabContext H bm timeout = Returns (WithTimeout (NewContext parent) timeout, bm, [])"
  by (simp add: NewTabContext_def Lock_def unlock_lock)

text \<open>
  C10.  The claim is that \<open>NewTabContext\<close> on an uninitialized manager initializes it
  and, when that fails, returns the background context.  \<open>NewTabContext\<close> calls
  \<open>Initialize\<close> while it holds the mutex that \<open>Initialize\<close> locks first: on the
  fresh manager, on a machine without Chrome (where \<open>Initialize\<close> alone returns the
  error), the call never returns.
\<close>

theorem NewTabContext_blocks_when_uninitialized:
  "NewTabContext no_chrome GetBrowserManager 60 = Blocks
   \<and> initialized GetBrowserManager = False \<and> mu GetBrowserManager = False
   \<and> Initialize no_chrome GetBrowserManager [] True
       = Returns (Some ''Chrome/Chromium not found. Please install Chrome browser'',
                  GetBrowserManager, [LookForChrome])"
  by (simp add: NewTabContext_def Initialize_def Lock_def Unlock_def GetBrowserManager_def
      no_chrome_def Let_def)

end
